theory Spec2Isabelle
  imports Complex_Main "HOL-Library.Log_Nat"
begin

section \<open>JavaScript values\<close>

text \<open>
  A JavaScript number is an IEEE 754 double: a finite value, one of the two zeros, an
  infinity or NaN. A finite value is written \<open>Fin r\<close> with the rational \<open>r\<close> it equals
  (\<open>Fin 0\<close> is \<open>+0\<close>, \<open>NegZero\<close> is \<open>-0\<close>). Every operation rounds its exact result to
  the nearest double, a tie going to the even significand, and overflows to an infinity
  from \<open>2^1024 - 2^970\<close> on. A number that enters the program as decimal text (a
  literal such as \<open>0.2\<close>, a number of a JSON document) is the double nearest to it.
\<close>

datatype jsnum = Fin rat | NegZero | PosInf | NegInf | NaN

text \<open>
  A value held by a property of a result object: a number, a string, a nested object
  (its properties in the order of the object literal), or the string \<open>ToString(x)\<close> that
  \<open>toFixed\<close> returns for \<open>x \<ge> 10^21\<close>: that string is in exponential notation
  (\<open>(1e21).toFixed(2)\<close> is \<open>"1e+21"\<close>) and its digits are not modelled.
\<close>

datatype jsval =
    JNum jsnum
  | JStr string
  | JExpStr rat
  | JObj "(string \<times> jsval) list"

type_synonym jsobject = "(string \<times> jsval) list"

fun get_prop :: "jsobject \<Rightarrow> string \<Rightarrow> jsval option" where
  "get_prop [] k = None"
| "get_prop ((k', v) # ps) k = (if k' = k then Some v else get_prop ps k)"

definition has_prop :: "jsobject \<Rightarrow> string \<Rightarrow> bool" where
  "has_prop obj k = (get_prop obj k \<noteq> None)"

subsection \<open>Arithmetic on numbers\<close>

definition is_finite :: "jsnum \<Rightarrow> bool" where
  "is_finite x = (case x of Fin r \<Rightarrow> True | NegZero \<Rightarrow> True | _ \<Rightarrow> False)"

definition is_zero :: "jsnum \<Rightarrow> bool" where
  "is_zero x = (x = Fin 0 \<or> x = NegZero)"

definition is_inf :: "jsnum \<Rightarrow> bool" where
  "is_inf x = (x = PosInf \<or> x = NegInf)"

definition negative :: "jsnum \<Rightarrow> bool" where
  \<comment> \<open>the sign bit\<close>
  "negative x = (case x of Fin r \<Rightarrow> r < 0 | NegZero \<Rightarrow> True | NegInf \<Rightarrow> True | _ \<Rightarrow> False)"

definition rat_of :: "jsnum \<Rightarrow> rat" where
  \<comment> \<open>the value of a finite number\<close>
  "rat_of x = (case x of Fin r \<Rightarrow> r | _ \<Rightarrow> 0)"

definition signed_zero :: "bool \<Rightarrow> jsnum" where
  "signed_zero neg = (if neg then NegZero else Fin 0)"

definition signed_inf :: "bool \<Rightarrow> jsnum" where
  "signed_inf neg = (if neg then NegInf else PosInf)"

subsection \<open>Rounding to a double\<close>

definition pow2 :: "int \<Rightarrow> rat" where
  "pow2 k = 2 powi k"

definition exponent :: "rat \<Rightarrow> int" where
  \<comment> \<open>for \<open>a > 0\<close>, the \<open>e\<close> with \<open>2^e \<le> a < 2^(e + 1)\<close>\<close>
  "exponent a = (if 1 \<le> a then bitlen \<lfloor>a\<rfloor> - 1 else - bitlen (\<lceil>1 / a\<rceil> - 1))"

definition round_even :: "rat \<Rightarrow> int" where
  \<comment> \<open>the nearest integer, a tie going to the even one\<close>
  "round_even x =
     (let f = \<lfloor>x\<rfloor>; d = x - of_int f
      in if d < 1 / 2 then f else if 1 / 2 < d then f + 1 else if even f then f else f + 1)"

definition round_double :: "rat \<Rightarrow> jsnum" where
  \<comment> \<open>the double nearest to \<open>x\<close>: the multiple \<open>m * 2^q\<close> of the unit in the last place,
      which gives 53 significant bits from \<open>2^(-1022)\<close> on and is \<open>2^(-1074)\<close> below.
      The result overflows when \<open>m * 2^q\<close> reaches \<open>2^1024\<close>, which is when \<open>q > 971\<close>
      or \<open>q = 971\<close> and \<open>m = 2^53\<close>; a result rounded to zero keeps the sign of \<open>x\<close>.\<close>
  "round_double x =
     (if x = 0 then Fin 0
      else
        (let a = \<bar>x\<bar>;
             q = max (exponent a - 52) (- 1074);
             m = round_even (a / pow2 q)
         in if 971 < q \<or> (q = 971 \<and> 2 ^ 53 \<le> m) then signed_inf (x < 0)
            else if m = 0 then signed_zero (x < 0)
            else Fin ((if x < 0 then - 1 else 1) * of_int m * pow2 q)))"

definition num :: "rat \<Rightarrow> jsnum" where
  \<comment> \<open>the number that decimal text of value \<open>x\<close> denotes\<close>
  "num x = round_double x"

definition canon :: "jsnum \<Rightarrow> jsnum" where
  \<comment> \<open>the number a value stands for: \<open>Fin r\<close> is read as the double nearest to \<open>r\<close>,
      which is \<open>Fin r\<close> itself when \<open>r\<close> is a double\<close>
  "canon x = (case x of Fin r \<Rightarrow> round_double r | _ \<Rightarrow> x)"

subsection \<open>The operators\<close>

definition js_neg :: "jsnum \<Rightarrow> jsnum" where
  \<comment> \<open>unary \<open>-\<close>\<close>
  "js_neg x =
     (case x of
        Fin r \<Rightarrow> if r = 0 then NegZero else Fin (- r)
      | NegZero \<Rightarrow> Fin 0
      | PosInf \<Rightarrow> NegInf
      | NegInf \<Rightarrow> PosInf
      | NaN \<Rightarrow> NaN)"

definition js_add :: "jsnum \<Rightarrow> jsnum \<Rightarrow> jsnum" where
  \<comment> \<open>the operator \<open>+\<close> on numbers: an exact sum of zero is \<open>-0\<close> only when both
      operands are negative\<close>
  "js_add x y =
     (if x = NaN \<or> y = NaN then NaN
      else if is_inf x then (if is_inf y \<and> x \<noteq> y then NaN else x)
      else if is_inf y then y
      else if rat_of x + rat_of y = 0 then signed_zero (negative x \<and> negative y)
      else round_double (rat_of x + rat_of y))"

definition js_sub :: "jsnum \<Rightarrow> jsnum \<Rightarrow> jsnum" where
  \<comment> \<open>the operator \<open>-\<close>\<close>
  "js_sub x y = js_add x (js_neg y)"

definition js_div :: "jsnum \<Rightarrow> jsnum \<Rightarrow> jsnum" where
  \<comment> \<open>the operator \<open>/\<close>\<close>
  "js_div x y =
     (let neg = (negative x \<noteq> negative y) in
      if x = NaN \<or> y = NaN then NaN
      else if is_inf x then (if is_inf y then NaN else signed_inf neg)
      else if is_inf y then signed_zero neg
      else if is_zero y then (if is_zero x then NaN else signed_inf neg)
      else if is_zero x then signed_zero neg
      else round_double (rat_of x / rat_of y))"

definition js_mul :: "jsnum \<Rightarrow> jsnum \<Rightarrow> jsnum" where
  \<comment> \<open>the operator \<open>*\<close>\<close>
  "js_mul x y =
     (let neg = (negative x \<noteq> negative y) in
      if x = NaN \<or> y = NaN then NaN
      else if is_inf x \<or> is_inf y then
        (if is_zero x \<or> is_zero y then NaN else signed_inf neg)
      else if is_zero x \<or> is_zero y then signed_zero neg
      else round_double (rat_of x * rat_of y))"

definition Math_round :: "jsnum \<Rightarrow> jsnum" where
  \<comment> \<open>\<open>Math.round\<close>: the nearest integer, a tie going up; \<open>-0\<close> for \<open>-0.5 \<le> x < 0\<close>.
      The integer is a double whenever \<open>x\<close> is one.\<close>
  "Math_round x =
     (case x of
        Fin r \<Rightarrow> if r < 0 \<and> - (1 / 2) \<le> r then NegZero else Fin (of_int \<lfloor>r + 1 / 2\<rfloor>)
      | _ \<Rightarrow> x)"

definition js_gt :: "jsnum \<Rightarrow> jsnum \<Rightarrow> bool" where
  \<comment> \<open>the operator \<open>>\<close>: false when either side is NaN\<close>
  "js_gt x y =
     (if x = NaN \<or> y = NaN then False
      else if x = NegInf \<or> y = PosInf then False
      else if x = PosInf \<or> y = NegInf then True
      else rat_of x > rat_of y)"

definition js_eq :: "jsnum \<Rightarrow> jsnum \<Rightarrow> bool" where
  \<comment> \<open>the operator \<open>===\<close> on numbers: NaN differs from itself, the two zeros are equal\<close>
  "js_eq x y =
     (if x = NaN \<or> y = NaN then False
      else if is_inf x \<or> is_inf y then x = y
      else rat_of x = rat_of y)"

definition js_ge :: "jsnum \<Rightarrow> jsnum \<Rightarrow> bool" where
  \<comment> \<open>the operator \<open>>=\<close>\<close>
  "js_ge x y = (js_gt x y \<or> js_eq x y)"

definition max_step :: "jsnum \<Rightarrow> jsnum \<Rightarrow> jsnum" where
  \<comment> \<open>one step of \<open>Math.max\<close>: the highest value so far and the next argument\<close>
  "max_step highest x =
     (if highest = NaN \<or> x = NaN then NaN
      else if x = Fin 0 \<and> highest = NegZero then Fin 0
      else if js_gt x highest then x
      else highest)"

definition Math_max :: "jsnum list \<Rightarrow> jsnum" where
  \<comment> \<open>\<open>Math.max(...xs)\<close>: \<open>-Infinity\<close> for no argument, NaN when an argument is NaN\<close>
  "Math_max xs = foldl max_step NegInf xs"

subsection \<open>Strings\<close>

text \<open>
  A string is a list of characters, each a code point below 256 (Latin-1):
  \<open>toLowerCase\<close> maps \<open>A\<close>-\<open>Z\<close> and the upper-case letters \<open>U+00C0\<close>-\<open>U+00DE\<close>
  (without the multiplication sign \<open>U+00D7\<close>) to their lower-case letters, and \<open>trim\<close>
  removes tab, line feed, vertical tab, form feed, carriage return, space and no-break
  space from both ends.
\<close>

definition lower_char :: "char \<Rightarrow> char" where
  "lower_char c =
     (let n = (of_char c :: nat) in
      if (65 \<le> n \<and> n \<le> 90) \<or> (192 \<le> n \<and> n \<le> 222 \<and> n \<noteq> 215)
      then char_of (n + 32) else c)"

definition toLowerCase :: "string \<Rightarrow> string" where
  "toLowerCase s = map lower_char s"

definition is_space :: "char \<Rightarrow> bool" where
  "is_space c = ((of_char c :: nat) \<in> {9, 10, 11, 12, 13, 32, 160})"

definition trim :: "string \<Rightarrow> string" where
  "trim s = rev (dropWhile is_space (rev (dropWhile is_space s)))"

fun js_includes :: "'a list \<Rightarrow> 'a \<Rightarrow> bool" where
  \<comment> \<open>\<open>Array.prototype.includes\<close>\<close>
  "js_includes [] x = False"
| "js_includes (y # ys) x = (y = x \<or> js_includes ys x)"

subsection \<open>Rendering a number with two decimals\<close>

definition digit_char :: "nat \<Rightarrow> char" where
  "digit_char d = ''0123456789'' ! d"

fun show_nat :: "nat \<Rightarrow> string" where
  "show_nat n = (if n < 10 then [digit_char n] else show_nat (n div 10) @ [digit_char (n mod 10)])"

declare show_nat.simps [simp del]

definition insert_point :: "nat \<Rightarrow> string" where
  \<comment> \<open>the digits of \<open>n\<close>, padded with zeros on the left to three, with a point before the
      last two\<close>
  "insert_point n =
     (let m = show_nat n;
          m' = (if length m \<le> 2 then replicate (3 - length m) CHR ''0'' @ m else m);
          k = length m'
      in take (k - 2) m' @ ''.'' @ drop (k - 2) m')"

definition toFixed2_finite :: "rat \<Rightarrow> jsval" where
  \<comment> \<open>\<open>toFixed(2)\<close> on a finite value: from \<open>10^21\<close> on the result is \<open>ToString(x)\<close>;
      below, \<open>n\<close> is the integer nearest to \<open>100 x\<close> (the larger one of two) and the
      result is its digits with the point\<close>
  "toFixed2_finite x =
     (let s = (if x < 0 then ''-'' else []);
          y = \<bar>x\<bar>
      in if y \<ge> 10 ^ 21 then JExpStr x
         else JStr (s @ insert_point (nat \<lfloor>y * 100 + 1 / 2\<rfloor>)))"

definition toFixed2 :: "jsnum \<Rightarrow> jsval" where
  \<comment> \<open>\<open>Number.prototype.toFixed\<close> with \<open>fractionDigits = 2\<close>\<close>
  "toFixed2 x =
     (case x of
        Fin r \<Rightarrow> toFixed2_finite r
      | NegZero \<Rightarrow> toFixed2_finite 0
      | PosInf \<Rightarrow> JStr ''Infinity''
      | NegInf \<Rightarrow> JStr ''-Infinity''
      | NaN \<Rightarrow> JStr ''NaN'')"

section \<open>The metrics analysis of \<open>api/feedback.js\<close>\<close>

text \<open>
  A recognised word: its text and its start and end time in seconds (the field \<open>end\<close> of
  the source is \<open>end'\<close> here). The times are the numbers as the transcription writes them;
  the program computes with the doubles \<open>num (start w)\<close> and \<open>num (end' w)\<close>.
\<close>

record js_word =
  word :: string
  start :: rat
  end' :: rat

text \<open>The argument \<open>words\<close>: \<open>null\<close>, \<open>undefined\<close> or an array of words.\<close>

datatype words_arg = WNull | WUndefined | WArray "js_word list"

definition fillerWords :: "string list" where
  "fillerWords =
     [''um'', ''uh'', ''like'', ''you know'', ''so'', ''basically'', ''actually'', ''literally'']"

definition is_filler :: "js_word \<Rightarrow> bool" where
  \<comment> \<open>the test of the \<open>forEach\<close> body\<close>
  "is_filler w = js_includes fillerWords (trim (toLowerCase (word w)))"

fun count_fillers :: "js_word list \<Rightarrow> nat \<Rightarrow> nat" where
  \<comment> \<open>the \<open>forEach\<close> loop, the counter \<open>fillerCount\<close> passed along\<close>
  "count_fillers [] fillerCount = fillerCount"
| "count_fillers (w # ws) fillerCount =
     count_fillers ws (if is_filler w then fillerCount + 1 else fillerCount)"

function find_pauses :: "js_word list \<Rightarrow> nat \<Rightarrow> jsnum list \<Rightarrow> jsnum list" where
  \<comment> \<open>the \<open>for\<close> loop over \<open>i\<close>, the array \<open>pauses\<close> passed along\<close>
  "find_pauses words i pauses =
     (if i < length words then
        (let pause = js_sub (num (start (words ! i))) (num (end' (words ! (i - 1))))
         in find_pauses words (i + 1)
              (if js_gt pause (num (1 / 5)) then pauses @ [pause] else pauses))
      else pauses)"
  by pat_completeness auto
termination
  by (relation "measure (\<lambda>(words, i, pauses). length words - i)") auto

declare find_pauses.simps [simp del]

definition default_metrics :: jsobject where
  "default_metrics =
     [(''wordsPerMinute'', JNum (Fin 0)),
      (''averagePauseDuration'', JNum (Fin 0)),
      (''longestPause'', JNum (Fin 0)),
      (''fillerWordCount'', JNum (Fin 0)),
      (''pacingVariation'', JStr ''unknown'')]"

definition analyze_words :: "js_word list \<Rightarrow> jsnum \<Rightarrow> jsobject" where
  \<comment> \<open>the body of \<open>analyzeMetrics\<close> after its guard; the length of an array is below
      \<open>2^32\<close>, a double\<close>
  "analyze_words words duration =
     (let fillerCount = count_fillers words 0;
          pauses = find_pauses words 1 [];
          wordsPerMinute =
            Math_round (js_mul (js_div (Fin (of_nat (length words))) (canon duration)) (Fin 60));
          pacingVariation =
            (if js_gt (Fin (of_nat (length pauses)))
                  (js_mul (Fin (of_nat (length words))) (num (3 / 10))) then ''halting''
             else if js_gt (js_mul (Fin (of_nat (length words))) (num (1 / 10)))
                       (Fin (of_nat (length pauses)))
                     \<and> js_gt wordsPerMinute (Fin 150) then ''rushed''
             else ''steady'')
      in [(''wordsPerMinute'', JNum wordsPerMinute),
          (''averagePauseDuration'',
             if length pauses > 0
             then toFixed2 (js_div (foldl js_add (Fin 0) pauses) (Fin (of_nat (length pauses))))
             else JNum (Fin 0)),
          (''longestPause'',
             if length pauses > 0 then toFixed2 (Math_max pauses) else JNum (Fin 0)),
          (''fillerWordCount'', JNum (Fin (of_nat fillerCount))),
          (''pauseCount'', JNum (Fin (of_nat (length pauses)))),
          (''pacingVariation'', JStr pacingVariation)])"

definition analyzeMetrics :: "words_arg \<Rightarrow> jsnum \<Rightarrow> jsobject" where
  "analyzeMetrics words duration =
     (case words of
        WNull \<Rightarrow> default_metrics
      | WUndefined \<Rightarrow> default_metrics
      | WArray ws \<Rightarrow> if length ws = 0 then default_metrics else analyze_words ws duration)"

section \<open>The request handlers of \<open>api/feedback.js\<close>\<close>

text \<open>
  Whatever a \<open>try\<close> block catches: \<open>error.status\<close> (absent on most errors, the HTTP
  status on an error of the API client) and \<open>error.message\<close>.
\<close>

record thrown =
  err_status :: "nat option"
  err_message :: string

definition truthy_status :: "nat option \<Rightarrow> bool" where
  \<comment> \<open>the test \<open>if (error.status)\<close>\<close>
  "truthy_status s = (case s of None \<Rightarrow> False | Some n \<Rightarrow> n \<noteq> 0)"

text \<open>
  The response: the status code, the headers set with \<open>setHeader\<close>, and the JSON body
  (\<open>None\<close> after \<open>end()\<close>).
\<close>

record response =
  status :: nat
  headers :: "(string \<times> string) list"
  body :: "jsval option"

text \<open>
  The operations a handler awaits. A run of a handler yields its response, the lines
  written with \<open>console.log\<close> and \<open>console.error\<close> (their fixed text only), and the
  operations it started, in order.
\<close>

datatype call = ParseForm | Transcribe | Complete

record run =
  reply :: response
  console :: "string list"
  calls :: "call list"

text \<open>
  The result of \<open>parseMultipartForm\<close>: whether \<open>files.audio\<close> is there (its name), and
  \<open>fields.duration\<close>. The parsing of the body itself (lines 48-97) is not modelled:
  its outcome, a value or an error, is part of the request.
\<close>

record form_data =
  audio :: "string option"
  duration_field :: "string option"

text \<open>
  The request: \<open>req.method\<close>, \<open>req.headers['content-type']\<close>, \<open>req.body.text\<close> when it
  is a string (\<open>None\<close> for a missing body, a missing \<open>text\<close> and a \<open>text\<close> of another
  type), and the outcome of \<open>parseMultipartForm(req)\<close>.
\<close>

record request =
  http_method :: string
  content_type :: "string option"
  body_text :: "string option"
  form :: "thrown + form_data"

text \<open>The verbose JSON of the transcription: \<open>text\<close>, \<open>words\<close> and \<open>duration\<close>.\<close>

record transcript =
  t_text :: string
  t_words :: words_arg
  t_duration :: "jsnum option"

text \<open>
  What the platform and the remote services answer during one run: the environment
  variable \<open>OPENAI_API_KEY\<close>, the function \<open>parseFloat\<close>, the outcome of the
  transcription call and the outcome of the chat completion
  (\<open>choices[0].message.content\<close>, when there is one).
\<close>

record platform =
  OPENAI_API_KEY :: "string option"
  parseFloat :: "string \<Rightarrow> jsnum"
  transcription :: "thrown + transcript"
  completion :: "thrown + string option"

fun is_prefix :: "string \<Rightarrow> string \<Rightarrow> bool" where
  "is_prefix [] s = True"
| "is_prefix (p # ps) [] = False"
| "is_prefix (p # ps) (c # cs) = (p = c \<and> is_prefix ps cs)"

fun str_includes :: "string \<Rightarrow> string \<Rightarrow> bool" where
  \<comment> \<open>\<open>String.prototype.includes\<close>\<close>
  "str_includes [] p = (p = [])"
| "str_includes (c # cs) p = (is_prefix p (c # cs) \<or> str_includes cs p)"

definition valid_text :: "string option \<Rightarrow> bool" where
  \<comment> \<open>the negation of \<open>!text || typeof text !== 'string' || !text.trim()\<close>\<close>
  "valid_text t = (case t of None \<Rightarrow> False | Some s \<Rightarrow> s \<noteq> [] \<and> trim s \<noteq> [])"

definition feedback_of :: "string option \<Rightarrow> string" where
  \<comment> \<open>\<open>completion.choices?.[0]?.message?.content?.trim() || 'No feedback generated.'\<close>\<close>
  "feedback_of content =
     (case content of
        None \<Rightarrow> ''No feedback generated.''
      | Some c \<Rightarrow> if trim c = [] then ''No feedback generated.'' else trim c)"

definition json_error :: "string \<Rightarrow> jsval" where
  "json_error msg = JObj [(''error'', JStr msg)]"

text \<open>
  The text-only handlers (lines 5-35 and 337-376): they differ in the model and the prompt
  they send, which are arguments of the completion call, and share everything else.
\<close>

definition handler_text :: "(thrown + string option) \<Rightarrow> request \<Rightarrow> run" where
  "handler_text completion_outcome req =
     (if http_method req \<noteq> ''POST'' then
        \<lparr>reply = \<lparr>status = 405, headers = [(''Allow'', ''POST'')],
                  body = Some (json_error ''Method not allowed'')\<rparr>,
         console = [], calls = []\<rparr>
      else if \<not> valid_text (body_text req) then
        \<lparr>reply = \<lparr>status = 400, headers = [],
                  body = Some (json_error ''Missing transcript text'')\<rparr>,
         console = [], calls = []\<rparr>
      else
        (case completion_outcome of
           Inr content \<Rightarrow>
             \<lparr>reply = \<lparr>status = 200, headers = [],
                       body = Some (JObj [(''feedback'', JStr (feedback_of content))])\<rparr>,
              console = [], calls = [Complete]\<rparr>
         | Inl error \<Rightarrow>
             \<lparr>reply = \<lparr>status = 500, headers = [],
                       body = Some (json_error ''Failed to generate feedback'')\<rparr>,
              console = [''Feedback generation failed:''], calls = [Complete]\<rparr>))"

text \<open>The audio handler (lines 152-332).\<close>

definition cors_headers :: "(string \<times> string) list" where
  "cors_headers =
     [(''Access-Control-Allow-Credentials'', ''true''),
      (''Access-Control-Allow-Origin'', ''*''),
      (''Access-Control-Allow-Methods'', ''POST, OPTIONS''),
      (''Access-Control-Allow-Headers'', ''Content-Type'')]"

definition handler_duration :: "(string \<Rightarrow> jsnum) \<Rightarrow> string option \<Rightarrow> jsnum option \<Rightarrow> jsnum" where
  \<comment> \<open>\<open>fields.duration ? parseFloat(fields.duration) : transcription.duration || 0\<close>:
      the empty string is falsy, and so are \<open>undefined\<close>, both zeros and NaN\<close>
  "handler_duration parse field td =
     (let fallback = (case td of
                        None \<Rightarrow> Fin 0
                      | Some d \<Rightarrow> if is_zero d \<or> d = NaN then Fin 0 else d)
      in case field of
           None \<Rightarrow> fallback
         | Some s \<Rightarrow> if s \<noteq> [] then parse s else fallback)"

definition words_or_empty :: "words_arg \<Rightarrow> words_arg" where
  \<comment> \<open>\<open>transcription.words || []\<close>\<close>
  "words_or_empty ws = (case ws of WArray xs \<Rightarrow> WArray xs | _ \<Rightarrow> WArray [])"

definition handler_try :: "platform \<Rightarrow> request \<Rightarrow> (thrown + response) \<times> string list \<times> call list" where
  \<comment> \<open>the \<open>try\<close> block: the response it returns or the error it throws, with the lines
      logged and the operations started until then\<close>
  "handler_try env req =
     (let contentType = (case content_type req of None \<Rightarrow> [] | Some c \<Rightarrow> c) in
      if str_includes contentType ''multipart/form-data'' then
        (case form req of
           Inl error \<Rightarrow> (Inl error, [], [ParseForm])
         | Inr parsed \<Rightarrow>
             (case audio parsed of
                None \<Rightarrow>
                  (Inr \<lparr>status = 400, headers = cors_headers,
                        body = Some (json_error ''No audio file provided'')\<rparr>,
                   [], [ParseForm])
              | Some filename \<Rightarrow>
                  (case transcription env of
                     Inl error \<Rightarrow>
                       (Inl error, [''Processing audio file''], [ParseForm, Transcribe])
                   | Inr t \<Rightarrow>
                       (let words = words_or_empty (t_words t);
                            duration =
                              handler_duration (parseFloat env) (duration_field parsed)
                                (t_duration t);
                            metrics = analyzeMetrics words duration;
                            logged = [''Processing audio file'', ''Transcription complete.'',
                                      ''Metrics:'']
                        in case completion env of
                             Inl error \<Rightarrow>
                               (Inl error, logged, [ParseForm, Transcribe, Complete])
                           | Inr content \<Rightarrow>
                               (Inr \<lparr>status = 200, headers = cors_headers,
                                     body = Some (JObj
                                       [(''feedback'', JStr (feedback_of content)),
                                        (''transcript'', JStr (t_text t)),
                                        (''metrics'', JObj metrics)])\<rparr>,
                                logged, [ParseForm, Transcribe, Complete])))))
      else if \<not> valid_text (body_text req) then
        (Inr \<lparr>status = 400, headers = cors_headers,
              body = Some (json_error ''Missing transcript text or audio file'')\<rparr>,
         [], [])
      else
        (case completion env of
           Inl error \<Rightarrow> (Inl error, [], [Complete])
         | Inr content \<Rightarrow>
             (Inr \<lparr>status = 200, headers = cors_headers,
                   body = Some (JObj [(''feedback'', JStr (feedback_of content))])\<rparr>,
              [], [Complete])))"

definition handler_catch :: "platform \<Rightarrow> thrown \<Rightarrow> response \<times> string list" where
  \<comment> \<open>the \<open>catch\<close> block: the response and the lines logged\<close>
  "handler_catch env error =
     (let logged = [''Feedback generation failed:'', ''Error details:'', ''Error stack:''] in
      if truthy_status (err_status error) then
        (\<lparr>status = the (err_status error), headers = cors_headers,
          body = Some (JObj [(''error'', JStr ''OpenAI API error''),
                             (''details'', JStr (err_message error)),
                             (''status'', JNum (Fin (of_nat (the (err_status error)))))])\<rparr>,
         logged @ [''OpenAI API Status:'', ''OpenAI API Error:''])
      else if (case OPENAI_API_KEY env of None \<Rightarrow> True | Some k \<Rightarrow> k = []) then
        (\<lparr>status = 500, headers = cors_headers,
          body = Some (JObj [(''error'', JStr ''OpenAI API key not configured''),
                             (''details'',
                              JStr ''OPENAI_API_KEY environment variable is missing'')])\<rparr>,
         logged)
      else
        (\<lparr>status = 500, headers = cors_headers,
          body = Some (JObj [(''error'', JStr ''Failed to generate feedback''),
                             (''details'', JStr (err_message error))])\<rparr>,
         logged))"

definition handler :: "platform \<Rightarrow> request \<Rightarrow> run" where
  "handler env req =
     (if http_method req = ''OPTIONS'' then
        \<lparr>reply = \<lparr>status = 200, headers = cors_headers, body = None\<rparr>,
         console = [], calls = []\<rparr>
      else if http_method req \<noteq> ''POST'' then
        \<lparr>reply = \<lparr>status = 405, headers = cors_headers @ [(''Allow'', ''POST'')],
                  body = Some (json_error ''Method not allowed'')\<rparr>,
         console = [], calls = []\<rparr>
      else
        (case handler_try env req of
           (Inr r, logged, started) \<Rightarrow> \<lparr>reply = r, console = logged, calls = started\<rparr>
         | (Inl error, logged, started) \<Rightarrow>
             (let (r, more) = handler_catch env error
              in \<lparr>reply = r, console = logged @ more, calls = started\<rparr>)))"

section \<open>The daily reminder of \<open>sw.js\<close>\<close>

definition MESSAGES :: "string list" where
  "MESSAGES =
     [''Time to flex your speaking muscles!'',
      ''Your voice is waiting to be heard. Let's practice!'',
      ''A quick speech a day keeps stage fright away!'',
      ''Ready to build your speaking confidence?'',
      ''Your daily speaking workout awaits!'',
      ''Just 2 minutes of practice makes a difference!'',
      ''Champions practice daily. Your turn!'']"

text \<open>
  The two records the service worker reads from the local database: the value stored
  under \<open>notifications\<close> in the store \<open>settings\<close> and the value stored under \<open>daily\<close>
  in the store \<open>stats\<close>. A property that may be missing is an option.
\<close>

record settings =
  enabled :: bool
  time :: "string option"
  lastNotificationDate :: "string option"

record stats =
  lastDate :: "string option"
  todaySpeeches :: nat

record db =
  settings_notifications :: "settings option"
  stats_daily :: "stats option"

text \<open>One reading of the clock, \<open>new Date()\<close>, with the three methods the code calls.\<close>

record date =
  toDateString :: string
  getHours :: nat
  getMinutes :: nat

text \<open>
  What the platform answers during one run of \<open>sendDailyReminder\<close>, in the order of the
  source: whether the read of the settings (line 118) and of the stats (line 121) fail,
  the clock read at line 122 and the one read at line 135, the function \<open>Number\<close>, the
  index drawn at line 155, whether \<open>showNotification\<close> fails (line 157), whether the second
  read of the settings fails (line 171), the clock read at line 173, and whether the
  write fails (line 174).
\<close>

record reminder_env =
  settings_read_fails :: bool
  stats_read_fails :: bool
  today_clock :: date
  now_clock :: date
  Number :: "string \<Rightarrow> jsnum"
  random_index :: nat
  show_fails :: bool
  settings_reread_fails :: bool
  mark_clock :: date
  save_fails :: bool

fun js_split :: "char \<Rightarrow> string \<Rightarrow> string list" where
  \<comment> \<open>\<open>String.prototype.split\<close> at a one-character separator\<close>
  "js_split sep [] = [[]]"
| "js_split sep (c # cs) =
     (if c = sep then [] # js_split sep cs
      else (case js_split sep cs of
              [] \<Rightarrow> [[c]]
            | p # ps \<Rightarrow> (c # p) # ps))"

definition element :: "jsnum list \<Rightarrow> nat \<Rightarrow> jsnum" where
  \<comment> \<open>an element bound by array destructuring, compared as a number: a missing one is
      \<open>undefined\<close>, which compares as NaN\<close>
  "element xs i = (if i < length xs then xs ! i else NaN)"

definition isPastTime :: "date \<Rightarrow> jsnum \<Rightarrow> jsnum \<Rightarrow> bool" where
  "isPastTime now targetHours targetMinutes =
     (let currentHours = Fin (of_nat (getHours now));
          currentMinutes = Fin (of_nat (getMinutes now))
      in js_gt currentHours targetHours
         \<or> (js_eq currentHours targetHours \<and> js_ge currentMinutes targetMinutes))"

definition practiced_today :: "stats option \<Rightarrow> string \<Rightarrow> bool" where
  \<comment> \<open>\<open>stats && stats.lastDate === today && stats.todaySpeeches > 0\<close>\<close>
  "practiced_today st today =
     (case st of
        None \<Rightarrow> False
      | Some s \<Rightarrow> lastDate s = Some today \<and> todaySpeeches s > 0)"

definition shouldSendNotification :: "reminder_env \<Rightarrow> db \<Rightarrow> bool \<times> string list" where
  \<comment> \<open>the value returned and the lines logged\<close>
  "shouldSendNotification env d =
     (if settings_read_fails env then (False, [''Error checking notification status:''])
      else
        (case settings_notifications d of
           None \<Rightarrow> (False, [])
         | Some s \<Rightarrow>
             if \<not> enabled s then (False, [])
             else if stats_read_fails env then (False, [''Error checking notification status:''])
             else
               (let today = toDateString (today_clock env) in
                if practiced_today (stats_daily d) today then (False, [])
                else if lastNotificationDate s = Some today then (False, [])
                else
                  (case time s of
                     None \<Rightarrow> (False, [''Error checking notification status:''])
                   | Some t \<Rightarrow>
                       (let target = map (Number env) (js_split CHR '':'' t)
                        in (isPastTime (now_clock env) (element target 0) (element target 1),
                            []))))))"

text \<open>
  One run of \<open>sendDailyReminder\<close>: the database after it, the notifications shown, the
  lines logged, and whether the promise it returns is rejected (an error that no
  \<open>catch\<close> of the function handles).
\<close>

record reminder_run =
  db_after :: db
  shown :: "string list"
  logged :: "string list"
  rejected :: bool

definition sendDailyReminder :: "reminder_env \<Rightarrow> db \<Rightarrow> reminder_run" where
  "sendDailyReminder env d =
     (let (shouldSend, lines) = shouldSendNotification env d in
      if \<not> shouldSend then \<lparr>db_after = d, shown = [], logged = lines, rejected = False\<rparr>
      else
        (let message = MESSAGES ! (random_index env mod length MESSAGES) in
         if show_fails env then \<lparr>db_after = d, shown = [], logged = lines, rejected = True\<rparr>
         else if settings_reread_fails env then
           \<lparr>db_after = d, shown = [message],
            logged = lines @ [''Error updating notification date:''], rejected = False\<rparr>
         else
           (case settings_notifications d of
              None \<Rightarrow> \<lparr>db_after = d, shown = [message], logged = lines, rejected = False\<rparr>
            | Some s \<Rightarrow>
                if save_fails env then
                  \<lparr>db_after = d, shown = [message],
                   logged = lines @ [''Error updating notification date:''], rejected = False\<rparr>
                else
                  \<lparr>db_after = d\<lparr>settings_notifications :=
                       Some (s\<lparr>lastNotificationDate := Some (toDateString (mark_clock env))\<rparr>)\<rparr>,
                   shown = [message], logged = lines, rejected = False\<rparr>)))"

fun run_reminders :: "reminder_env list \<Rightarrow> db \<Rightarrow> db \<times> string list" where
  \<comment> \<open>runs of \<open>sendDailyReminder\<close> one after the other, nothing else writing the
      database in between: the final database and all notifications shown\<close>
  "run_reminders [] d = (d, [])"
| "run_reminders (env # envs) d =
     (let r = sendDailyReminder env d;
          (d', more) = run_reminders envs (db_after r)
      in (d', shown r @ more))"

section \<open>What the analysis is to compute\<close>

text \<open>
  The gap before word \<open>i\<close>, in double arithmetic, and the gaps over 0.2 seconds of the
  consecutive pairs \<open>(i - 1, i)\<close>, \<open>1 \<le> i < length ws\<close>, in the order of the words.
\<close>

definition gap :: "js_word list \<Rightarrow> nat \<Rightarrow> jsnum" where
  "gap ws i = js_sub (num (start (ws ! i))) (num (end' (ws ! (i - 1))))"

definition long_gaps :: "js_word list \<Rightarrow> jsnum list" where
  "long_gaps ws = filter (\<lambda>g. js_gt g (num (1 / 5))) (map (gap ws) [1..<length ws])"

text \<open>
  The mean in double arithmetic: the sum taken from the left, starting at \<open>0\<close>, divided
  by the count.
\<close>

definition js_mean :: "jsnum list \<Rightarrow> jsnum" where
  "js_mean xs = js_div (foldl js_add (Fin 0) xs) (Fin (of_nat (length xs)))"

text \<open>A finite value that \<open>toFixed\<close> renders in fixed notation: one below \<open>10^21\<close>.\<close>

definition fixed_range :: "jsnum \<Rightarrow> bool" where
  "fixed_range x = (is_finite x \<and> \<bar>rat_of x\<bar> < 10 ^ 21)"

text \<open>
  A non-negative value with two decimals: the digits of the integer part, a point, and
  the two digits of the hundredths, the value being rounded to the nearest hundredth
  (a tie going up).
\<close>

definition two_decimals :: "rat \<Rightarrow> string" where
  "two_decimals x =
     (let n = nat \<lfloor>x * 100 + 1 / 2\<rfloor>
      in show_nat (n div 100) @ ''.'' @ [digit_char (n div 10 mod 10), digit_char (n mod 10)])"

definition is_digit :: "char \<Rightarrow> bool" where
  "is_digit c = (48 \<le> (of_char c :: nat) \<and> (of_char c :: nat) \<le> 57)"

definition two_decimal_string :: "string \<Rightarrow> bool" where
  \<comment> \<open>one digit or more, a point, two digits\<close>
  "two_decimal_string s =
     (let k = length s
      in 4 \<le> k \<and> s ! (k - 3) = CHR ''.''
         \<and> list_all is_digit (take (k - 3) s) \<and> list_all is_digit (drop (k - 2) s))"

definition is_two_decimal :: "jsval \<Rightarrow> bool" where
  "is_two_decimal v = (case v of JStr s \<Rightarrow> two_decimal_string s | _ \<Rightarrow> False)"

definition filler_texts :: "string set" where
  "filler_texts =
     {''um'', ''uh'', ''like'', ''you know'', ''so'', ''basically'', ''actually'', ''literally''}"

definition is_string :: "jsval \<Rightarrow> bool" where
  "is_string v = (case v of JStr s \<Rightarrow> True | JExpStr x \<Rightarrow> True | _ \<Rightarrow> False)"

definition positive_value :: "jsnum \<Rightarrow> bool" where
  \<comment> \<open>\<open>+Infinity\<close> or a finite value that is not negative\<close>
  "positive_value x = (x = PosInf \<or> (\<exists>r. x = Fin r \<and> 0 \<le> r))"

section \<open>Sample inputs\<close>

definition four_words :: "js_word list" where
  "four_words =
     [\<lparr>word = ''so'', start = 0, end' = 1 / 2\<rparr>,
      \<lparr>word = ''this'', start = 1, end' = 3 / 2\<rparr>,
      \<lparr>word = ''is'', start = 8 / 5, end' = 2\<rparr>,
      \<lparr>word = ''it'', start = 13 / 4, end' = 4\<rparr>]"

definition three_words :: "js_word list" where
  \<comment> \<open>two pauses, of 0.21 and 0.26 seconds\<close>
  "three_words =
     [\<lparr>word = ''one'', start = 0, end' = 0\<rparr>,
      \<lparr>word = ''two'', start = 21 / 100, end' = 22 / 100\<rparr>,
      \<lparr>word = ''three'', start = 48 / 100, end' = 1 / 2\<rparr>]"

definition forty_one_words :: "js_word list" where
  "forty_one_words = replicate 41 \<lparr>word = ''word'', start = 0, end' = 0\<rparr>"

definition audio_request :: request where
  \<comment> \<open>an upload with an audio file and no \<open>duration\<close> field\<close>
  "audio_request =
     \<lparr>http_method = ''POST'',
      content_type = Some ''multipart/form-data; boundary=XYZ'',
      body_text = None,
      form = Inr \<lparr>audio = Some ''speech.webm'', duration_field = None\<rparr>\<rparr>"

definition plain_transcript :: transcript where
  \<comment> \<open>a transcription with words and without a \<open>duration\<close>\<close>
  "plain_transcript = \<lparr>t_text = ''so this is it'', t_words = WArray four_words, t_duration = None\<rparr>"

definition working_platform :: platform where
  "working_platform =
     \<lparr>OPENAI_API_KEY = Some ''key'', parseFloat = (\<lambda>s. NaN),
      transcription = Inr plain_transcript, completion = Inr (Some ''Summary: fine.'')\<rparr>"

definition morning :: date where
  "morning = \<lparr>toDateString = ''Tue Nov 03 2026'', getHours = 9, getMinutes = 30\<rparr>"

definition sample_Number :: "string \<Rightarrow> jsnum" where
  \<comment> \<open>\<open>Number\<close> on the two strings of the sample time, NaN elsewhere\<close>
  "sample_Number s = (if s = ''09'' then Fin 9 else if s = ''00'' then Fin 0 else NaN)"

definition reminder_db :: db where
  \<comment> \<open>reminders enabled for 09:00, none sent yet, no speech recorded\<close>
  "reminder_db =
     \<lparr>settings_notifications =
        Some \<lparr>enabled = True, time = Some ''09:00'', lastNotificationDate = None\<rparr>,
      stats_daily = None\<rparr>"

definition calm_env :: reminder_env where
  \<comment> \<open>a run at 09:30 in which every operation succeeds\<close>
  "calm_env =
     \<lparr>settings_read_fails = False, stats_read_fails = False,
      today_clock = morning, now_clock = morning, Number = sample_Number,
      random_index = 3, show_fails = False, settings_reread_fails = False,
      mark_clock = morning, save_fails = False\<rparr>"

definition failing_save_env :: reminder_env where
  \<comment> \<open>the same run, the write of line 174 failing\<close>
  "failing_save_env = calm_env\<lparr>save_fails := True\<rparr>"

definition failing_show_env :: reminder_env where
  \<comment> \<open>the same run, \<open>showNotification\<close> failing\<close>
  "failing_show_env = calm_env\<lparr>show_fails := True\<rparr>"

definition text_request :: request where
  \<comment> \<open>a request of the text-only format; \<open>parseMultipartForm\<close> is not called for it\<close>
  "text_request =
     \<lparr>http_method = ''POST'', content_type = Some ''application/json'',
      body_text = Some ''Hello everyone'',
      form = Inl \<lparr>err_status = None, err_message = ''No boundary found''\<rparr>\<rparr>"

definition rate_limited :: thrown where
  "rate_limited = \<lparr>err_status = Some 429, err_message = ''Rate limit reached''\<rparr>"

definition redirected :: thrown where
  "redirected = \<lparr>err_status = Some 302, err_message = ''302 status code (no body)''\<rparr>"

section \<open>The loops, the arithmetic and the rendering, in closed form\<close>

lemma find_pauses_eq:
  "find_pauses ws i acc
     = acc @ filter (\<lambda>g. js_gt g (num (1 / 5))) (map (gap ws) [i..<length ws])"
proof (induction ws i acc rule: find_pauses.induct)
  case (1 words i pauses)
  show ?case
  proof (cases "i < length words")
    case True
    let ?next = "if js_gt (gap words i) (num (1 / 5)) then pauses @ [gap words i] else pauses"
    have upt: "[i..<length words] = i # [i + 1..<length words]"
      using True by (simp add: upt_conv_Cons)
    have "find_pauses words i pauses = find_pauses words (i + 1) ?next"
      using True by (subst find_pauses.simps) (simp add: gap_def Let_def)
    also have "\<dots> = ?next @ filter (\<lambda>g. js_gt g (num (1 / 5)))
                          (map (gap words) [i + 1..<length words])"
      by (rule "1.IH" [OF True gap_def])
    also have "\<dots> = pauses @ filter (\<lambda>g. js_gt g (num (1 / 5)))
                          (map (gap words) [i..<length words])"
      by (subst upt) simp
    finally show ?thesis .
  next
    case False
    then show ?thesis
      by (subst find_pauses.simps) simp
  qed
qed

lemma find_pauses_long_gaps: "find_pauses ws (Suc 0) [] = long_gaps ws"
  by (simp add: find_pauses_eq long_gaps_def)

lemma length_long_gaps_card:
  "length (long_gaps ws)
     = card {i. 1 \<le> i \<and> i < length ws \<and> js_gt (gap ws i) (num (1 / 5))}"
proof -
  let ?over = "\<lambda>i. js_gt (gap ws i) (num (1 / 5))"
  have "length (long_gaps ws) = length (filter ?over [1..<length ws])"
    by (simp add: long_gaps_def filter_map comp_def)
  also have "\<dots> = card (set (filter ?over [1..<length ws]))"
    by (rule distinct_card [symmetric]) simp
  also have "set (filter ?over [1..<length ws]) = {i. 1 \<le> i \<and> i < length ws \<and> ?over i}"
    by auto
  finally show ?thesis .
qed

lemma num_fifth: "num (1 / 5) = Fin (3602879701896397 / 18014398509481984)"
  unfolding num_def by code_simp

lemma long_gaps_positive:
  assumes "g \<in> set (long_gaps ws)"
  shows "g = PosInf \<or> (\<exists>r. g = Fin r \<and> 0 < r)"
proof -
  have "js_gt g (Fin (3602879701896397 / 18014398509481984))"
    using assms by (auto simp: long_gaps_def num_fifth)
  then show ?thesis
    by (cases g) (auto simp: js_gt_def rat_of_def split: if_splits)
qed

lemma pow2_pos: "0 < pow2 k"
  by (simp add: pow2_def)

lemma round_even_nonneg: "0 \<le> x \<Longrightarrow> 0 \<le> round_even x"
  by (auto simp: round_even_def Let_def)

lemma round_double_positive: "0 < x \<Longrightarrow> positive_value (round_double x)"
proof -
  assume x: "0 < x"
  let ?ulp = "pow2 (max (exponent \<bar>x\<bar> - 52) (- 1074))"
  have "0 \<le> round_even (\<bar>x\<bar> / ?ulp)"
    using x pow2_pos [of "max (exponent \<bar>x\<bar> - 52) (- 1074)"]
    by (intro round_even_nonneg) simp
  then have "0 \<le> of_int (round_even (\<bar>x\<bar> / ?ulp)) * ?ulp"
    using pow2_pos [of "max (exponent \<bar>x\<bar> - 52) (- 1074)"] by simp
  then show ?thesis
    using x
    by (auto simp: round_double_def positive_value_def Let_def signed_inf_def signed_zero_def)
qed

lemma js_add_positive:
  "positive_value x \<Longrightarrow> positive_value y \<Longrightarrow> positive_value (js_add x y)"
proof -
  assume "positive_value x" and "positive_value y"
  then consider "x = PosInf" | "y = PosInf" "x \<noteq> PosInf"
    | a b where "x = Fin a" "y = Fin b" "0 \<le> a" "0 \<le> b"
    by (auto simp: positive_value_def)
  then show ?thesis
  proof cases
    case 1
    with \<open>positive_value y\<close> show ?thesis
      by (auto simp: js_add_def positive_value_def is_inf_def)
  next
    case 2
    with \<open>positive_value x\<close> show ?thesis
      by (auto simp: js_add_def positive_value_def is_inf_def)
  next
    case 3
    show ?thesis
    proof (cases "a + b = 0")
      case True
      with 3 show ?thesis
        by (simp add: js_add_def positive_value_def is_inf_def rat_of_def signed_zero_def
            negative_def)
    next
      case False
      with 3 have "0 < a + b" by linarith
      then show ?thesis
        using 3 False round_double_positive [of "a + b"]
        by (simp add: js_add_def is_inf_def rat_of_def)
    qed
  qed
qed

lemma sum_positive:
  "positive_value acc \<Longrightarrow> \<forall>x\<in>set xs. positive_value x \<Longrightarrow>
   positive_value (foldl js_add acc xs)"
  by (induction xs arbitrary: acc) (simp_all add: js_add_positive)

lemma js_div_positive:
  assumes "positive_value x" and "0 < n"
  shows "positive_value (js_div x (Fin n))"
proof -
  from assms(1) consider "x = PosInf" | "x = Fin 0" | a where "x = Fin a" "0 < a"
    by (auto simp: positive_value_def order_le_less)
  then show ?thesis
  proof cases
    case 1
    with assms(2) show ?thesis
      by (simp add: js_div_def positive_value_def is_inf_def negative_def signed_inf_def)
  next
    case 2
    with assms(2) show ?thesis
      by (simp add: js_div_def positive_value_def is_inf_def is_zero_def negative_def
          signed_zero_def)
  next
    case 3
    with assms(2) have "0 < a / n" by simp
    then show ?thesis
      using 3 assms(2) round_double_positive [of "a / n"]
      by (simp add: js_div_def is_inf_def is_zero_def rat_of_def)
  qed
qed

lemma js_mean_positive:
  assumes "xs \<noteq> []" and "\<forall>x\<in>set xs. positive_value x"
  shows "positive_value (js_mean xs)"
proof -
  have "positive_value (Fin 0)"
    by (simp add: positive_value_def)
  then have "positive_value (foldl js_add (Fin 0) xs)"
    using assms(2) by (rule sum_positive)
  moreover have "0 < (of_nat (length xs) :: rat)"
    using assms(1) by simp
  ultimately show ?thesis
    unfolding js_mean_def by (rule js_div_positive)
qed

lemma max_step_cases:
  assumes "positive_value x" and "highest = NegInf \<or> positive_value highest"
  shows "max_step highest x = (if js_gt x highest then x else highest)"
  using assms by (auto simp: max_step_def positive_value_def)

lemma foldl_max_step:
  assumes "\<forall>x\<in>set xs. positive_value x" and "positive_value h"
  shows "foldl max_step h xs \<in> insert h (set xs)
         \<and> positive_value (foldl max_step h xs)
         \<and> \<not> js_gt h (foldl max_step h xs)
         \<and> (\<forall>g\<in>set xs. \<not> js_gt g (foldl max_step h xs))"
  using assms
proof (induction xs arbitrary: h)
  case Nil
  then show ?case
    by (auto simp: positive_value_def js_gt_def)
next
  case (Cons x xs)
  let ?h = "max_step h x"
  have step: "?h = (if js_gt x h then x else h)"
    using Cons.prems by (intro max_step_cases) simp_all
  then have pos: "positive_value ?h"
    using Cons.prems by simp
  have above: "\<not> js_gt h ?h" "\<not> js_gt x ?h"
    using Cons.prems step by (auto simp: positive_value_def js_gt_def rat_of_def)
  from Cons.IH [of ?h] Cons.prems pos
  have ih: "foldl max_step ?h xs \<in> insert ?h (set xs)"
    "positive_value (foldl max_step ?h xs)"
    "\<not> js_gt ?h (foldl max_step ?h xs)"
    "\<forall>g\<in>set xs. \<not> js_gt g (foldl max_step ?h xs)"
    by simp_all
  have trans: "\<not> js_gt a c" if "\<not> js_gt a b" "\<not> js_gt b c"
    "positive_value a" "positive_value b" "positive_value c" for a b c
    using that by (auto simp: positive_value_def js_gt_def rat_of_def split: if_splits)
  have "\<not> js_gt h (foldl max_step ?h xs)"
    using trans [OF above(1) ih(3)] Cons.prems pos ih(2) by simp
  moreover have "\<not> js_gt x (foldl max_step ?h xs)"
    using trans [OF above(2) ih(3)] Cons.prems pos ih(2) by simp
  moreover have "foldl max_step ?h xs \<in> insert h (set (x # xs))"
    using ih(1) step by auto
  ultimately show ?case
    using ih by simp
qed

lemma Math_max_greatest:
  assumes "xs \<noteq> []" and "\<forall>x\<in>set xs. positive_value x"
  shows "Math_max xs \<in> set xs \<and> (\<forall>g\<in>set xs. \<not> js_gt g (Math_max xs))"
proof -
  obtain y ys where xs: "xs = y # ys"
    using assms(1) by (cases xs) auto
  have first: "max_step NegInf y = y"
    using assms(2) xs by (auto simp: max_step_def positive_value_def js_gt_def)
  have "foldl max_step y ys \<in> insert y (set ys)
        \<and> positive_value (foldl max_step y ys)
        \<and> \<not> js_gt y (foldl max_step y ys)
        \<and> (\<forall>g\<in>set ys. \<not> js_gt g (foldl max_step y ys))"
    using assms(2) xs by (intro foldl_max_step) simp_all
  then show ?thesis
    by (simp add: Math_max_def xs first)
qed

lemma count_fillers_eq: "count_fillers ws c = c + length (filter is_filler ws)"
  by (induction ws arbitrary: c) auto

lemma js_includes_set: "js_includes xs x \<longleftrightarrow> x \<in> set xs"
  by (induction xs) auto

lemma is_filler_iff: "is_filler = (\<lambda>w. trim (toLowerCase (word w)) \<in> filler_texts)"
  by (rule ext) (simp add: is_filler_def js_includes_set fillerWords_def filler_texts_def)

lemma digit_char_0: "digit_char 0 = CHR ''0''"
  by (simp add: digit_char_def)

lemma show_nat_small: "n < 10 \<Longrightarrow> show_nat n = [digit_char n]"
  by (subst show_nat.simps) simp

lemma show_nat_step: "10 \<le> n \<Longrightarrow> show_nat n = show_nat (n div 10) @ [digit_char (n mod 10)]"
  by (subst show_nat.simps) simp

lemma show_nat_two:
  "10 \<le> n \<Longrightarrow> n < 100 \<Longrightarrow> show_nat n = [digit_char (n div 10), digit_char (n mod 10)]"
  by (simp add: show_nat_step show_nat_small)

lemma show_nat_big:
  assumes "100 \<le> n"
  shows "show_nat n = show_nat (n div 100) @ [digit_char (n div 10 mod 10), digit_char (n mod 10)]"
proof -
  have "10 \<le> n" and "10 \<le> n div 10" using assms by auto
  then have "show_nat n = (show_nat (n div 10 div 10) @ [digit_char (n div 10 mod 10)])
                            @ [digit_char (n mod 10)]"
    by (simp add: show_nat_step)
  moreover have "n div 10 div 10 = n div 100"
    by (simp add: div_mult2_eq [symmetric])
  ultimately show ?thesis by simp
qed

lemma length_show_nat: "1 \<le> length (show_nat n)"
  by (cases "n < 10") (simp_all add: show_nat_small show_nat_step)

lemma insert_point_eq:
  "insert_point n
     = show_nat (n div 100) @ ''.'' @ [digit_char (n div 10 mod 10), digit_char (n mod 10)]"
proof -
  consider (one) "n < 10" | (two) "10 \<le> n" "n < 100" | (more) "100 \<le> n"
    by linarith
  then show ?thesis
  proof cases
    case one
    then show ?thesis
      by (simp add: insert_point_def show_nat_small digit_char_0 numeral_3_eq_3)
  next
    case two
    then have "n div 100 = 0" and "n div 10 mod 10 = n div 10" by auto
    with two show ?thesis
      by (simp add: insert_point_def show_nat_two show_nat_small digit_char_0)
  next
    case more
    have len: "\<not> length (show_nat n) \<le> 2"
      using length_show_nat [of "n div 100"] by (auto simp add: show_nat_big [OF more])
    show ?thesis
      unfolding insert_point_def Let_def if_not_P [OF len]
      by (simp add: show_nat_big [OF more])
  qed
qed

lemma is_digit_digit_char: "d < 10 \<Longrightarrow> is_digit (digit_char d)"
proof -
  assume "d < 10"
  then have "d \<in> {0, 1, 2, 3, 4, 5, 6, 7, 8, 9}" by auto
  then show ?thesis
    by (auto simp: is_digit_def digit_char_def)
qed

lemma show_nat_digits: "list_all is_digit (show_nat n)"
proof (induction n rule: show_nat.induct)
  case (1 n)
  show ?case
  proof (cases "n < 10")
    case True
    then show ?thesis by (simp add: show_nat_small is_digit_digit_char)
  next
    case False
    with 1 show ?thesis by (simp add: show_nat_step is_digit_digit_char)
  qed
qed

lemma two_decimal_string_two_decimals: "two_decimal_string (two_decimals x)"
  using length_show_nat [of "nat \<lfloor>x * 100 + 1 / 2\<rfloor> div 100"]
  by (simp add: two_decimal_string_def two_decimals_def Let_def nth_append
      show_nat_digits is_digit_digit_char)

lemma analyzeMetrics_array: "ws \<noteq> [] \<Longrightarrow> analyzeMetrics (WArray ws) d = analyze_words ws d"
  by (simp add: analyzeMetrics_def)

lemma fillerWordCount_prop:
  "get_prop (analyze_words ws d) ''fillerWordCount''
     = Some (JNum (Fin (of_nat (length (filter is_filler ws)))))"
  by (simp add: analyze_words_def Let_def count_fillers_eq)

lemma nearest_integer: "\<bar>of_int \<lfloor>x + 1 / 2\<rfloor> - x\<bar> \<le> 1 / (2 :: rat)"
proof -
  have "of_int \<lfloor>x + 1 / 2\<rfloor> \<le> x + 1 / 2" and "x + 1 / 2 < of_int \<lfloor>x + 1 / 2\<rfloor> + 1"
    by linarith+
  then show ?thesis by linarith
qed

lemma toFixed2_two_decimals:
  assumes "0 \<le> x" and "x < 10 ^ 21"
  shows "toFixed2 (Fin x) = JStr (two_decimals x)"
  using assms
  by (simp add: toFixed2_def toFixed2_finite_def two_decimals_def insert_point_eq Let_def)

lemma toFixed2_fixed_range:
  assumes "positive_value x" and "fixed_range x"
  shows "toFixed2 x = JStr (two_decimals (rat_of x))"
proof -
  from assms obtain r where "x = Fin r" "0 \<le> r" "r < 10 ^ 21"
    by (auto simp: positive_value_def fixed_range_def is_finite_def rat_of_def)
  then show ?thesis
    by (simp add: toFixed2_two_decimals rat_of_def)
qed

lemma toFixed2_string: "is_string (toFixed2 x)"
  by (cases x) (simp_all add: toFixed2_def toFixed2_finite_def is_string_def Let_def)

lemma pauseCount_prop:
  "get_prop (analyze_words ws d) ''pauseCount'' = Some (JNum (Fin (of_nat (length (long_gaps ws)))))"
  by (simp add: analyze_words_def Let_def find_pauses_long_gaps)

lemma wordsPerMinute_prop:
  "get_prop (analyze_words ws d) ''wordsPerMinute''
     = Some (JNum (Math_round (js_mul (js_div (Fin (of_nat (length ws))) (canon d)) (Fin 60))))"
  by (simp add: analyze_words_def Let_def)

lemma longestPause_prop:
  "get_prop (analyze_words ws d) ''longestPause''
     = Some (if long_gaps ws = [] then JNum (Fin 0) else toFixed2 (Math_max (long_gaps ws)))"
  by (simp add: analyze_words_def Let_def find_pauses_long_gaps)

lemma averagePauseDuration_prop:
  "get_prop (analyze_words ws d) ''averagePauseDuration''
     = Some (if long_gaps ws = [] then JNum (Fin 0) else toFixed2 (js_mean (long_gaps ws)))"
  by (simp add: analyze_words_def Let_def find_pauses_long_gaps js_mean_def)

lemma long_gaps_positive_value: "\<forall>g\<in>set (long_gaps ws). positive_value g"
  using long_gaps_positive [of _ ws] by (fastforce simp: positive_value_def)

lemma Math_round_finite:
  assumes "is_finite p"
  shows "is_finite (Math_round p) \<and> rat_of (Math_round p) = of_int \<lfloor>rat_of p + 1 / 2\<rfloor>"
proof (cases p)
  case (Fin x)
  show ?thesis
  proof (cases "x < 0 \<and> - (1 / 2) \<le> x")
    case True
    then have "\<lfloor>x + 1 / 2\<rfloor> = 0" by (simp add: floor_eq_iff)
    with True Fin show ?thesis
      by (simp add: Math_round_def is_finite_def rat_of_def)
  next
    case False
    with Fin show ?thesis
      by (auto simp: Math_round_def is_finite_def rat_of_def)
  qed
next
  case NegZero
  then show ?thesis
    by (simp add: Math_round_def is_finite_def rat_of_def floor_eq_iff)
qed (use assms in \<open>simp_all add: is_finite_def\<close>)

lemma Math_round_not_finite: "\<not> is_finite p \<Longrightarrow> Math_round p = p"
  by (cases p) (simp_all add: Math_round_def is_finite_def)

lemma canon_zero: "canon (Fin 0) = Fin 0" "canon NegZero = NegZero"
  by (simp_all add: canon_def round_double_def)

lemma wordsPerMinute_zero_duration:
  assumes "ws \<noteq> []"
  shows "get_prop (analyzeMetrics (WArray ws) (Fin 0)) ''wordsPerMinute'' = Some (JNum PosInf)"
    and "get_prop (analyzeMetrics (WArray ws) NegZero) ''wordsPerMinute'' = Some (JNum NegInf)"
  using assms
  by (simp_all add: analyzeMetrics_array wordsPerMinute_prop canon_zero js_div_def js_mul_def
      Math_round_def is_inf_def is_zero_def negative_def signed_inf_def Let_def)

section \<open>Properties of \<open>analyzeMetrics\<close>\<close>

text \<open>
  Claim C1. When \<open>words\<close> is \<open>null\<close>, \<open>undefined\<close> or the empty array, \<open>analyzeMetrics\<close>
  returns the default result, with \<open>wordsPerMinute\<close>, \<open>averagePauseDuration\<close>,
  \<open>longestPause\<close> and \<open>fillerWordCount\<close> all \<open>0\<close> and \<open>pacingVariation\<close> \<open>'unknown'\<close>,
  whatever the duration is.
\<close>

theorem analyzeMetrics_missing_words:
  "words = WNull \<or> words = WUndefined \<or> words = WArray [] \<Longrightarrow>
   analyzeMetrics words duration =
     [(''wordsPerMinute'', JNum (Fin 0)),
      (''averagePauseDuration'', JNum (Fin 0)),
      (''longestPause'', JNum (Fin 0)),
      (''fillerWordCount'', JNum (Fin 0)),
      (''pacingVariation'', JStr ''unknown'')]"
  by (auto simp: analyzeMetrics_def default_metrics_def)

theorem analyzeMetrics_missing_words_witness:
  "(WUndefined = WNull \<or> WUndefined = WUndefined \<or> WUndefined = WArray []) \<and>
   analyzeMetrics WUndefined NaN =
     [(''wordsPerMinute'', JNum (Fin 0)),
      (''averagePauseDuration'', JNum (Fin 0)),
      (''longestPause'', JNum (Fin 0)),
      (''fillerWordCount'', JNum (Fin 0)),
      (''pacingVariation'', JStr ''unknown'')]"
  using analyzeMetrics_missing_words [of WUndefined NaN] by simp

text \<open>
  Claim C3. For a non-empty array of words, \<open>fillerWordCount\<close> is the number of entries
  whose text, in lower case and trimmed, is one of the eight filler words.
\<close>

theorem analyzeMetrics_fillerWordCount:
  "ws \<noteq> [] \<Longrightarrow>
   get_prop (analyzeMetrics (WArray ws) d) ''fillerWordCount'' =
     Some (JNum (Fin (of_nat (length (filter
       (\<lambda>w. trim (toLowerCase (word w)) \<in>
          {''um'', ''uh'', ''like'', ''you know'', ''so'', ''basically'', ''actually'',
           ''literally''}) ws)))))"
  by (simp add: analyzeMetrics_array fillerWordCount_prop is_filler_iff filler_texts_def)

theorem analyzeMetrics_fillerWordCount_witness:
  "[\<lparr>word = '' Um'', start = 0, end' = 1 / 2\<rparr>,
    \<lparr>word = ''hello'', start = 1, end' = 3 / 2\<rparr>,
    \<lparr>word = ''LIKE '', start = 8 / 5, end' = 2\<rparr>,
    \<lparr>word = ''likely'', start = 2, end' = 3\<rparr>] \<noteq> [] \<and>
   get_prop (analyzeMetrics (WArray
     [\<lparr>word = '' Um'', start = 0, end' = 1 / 2\<rparr>,
      \<lparr>word = ''hello'', start = 1, end' = 3 / 2\<rparr>,
      \<lparr>word = ''LIKE '', start = 8 / 5, end' = 2\<rparr>,
      \<lparr>word = ''likely'', start = 2, end' = 3\<rparr>]) (Fin 3)) ''fillerWordCount''
     = Some (JNum (Fin 2))"
  using analyzeMetrics_fillerWordCount
    [of "[\<lparr>word = '' Um'', start = 0, end' = 1 / 2\<rparr>,
          \<lparr>word = ''hello'', start = 1, end' = 3 / 2\<rparr>,
          \<lparr>word = ''LIKE '', start = 8 / 5, end' = 2\<rparr>,
          \<lparr>word = ''likely'', start = 2, end' = 3\<rparr>]" "Fin 3"]
  by (simp add: trim_def toLowerCase_def lower_char_def is_space_def char_of_eq_iff)

text \<open>
  Claim C2, as amended. For a non-empty array of words, a pause is recorded for exactly
  the consecutive pairs \<open>(i - 1, i)\<close> whose gap \<open>words[i].start - words[i - 1].end\<close>,
  subtracted in double arithmetic, is greater than the double \<open>0.2\<close>: the array \<open>pauses\<close>
  that the loop builds holds these gaps, in order, and \<open>pauseCount\<close> is their number.
  When there is at least one, \<open>longestPause\<close> is \<open>toFixed(2)\<close> of the greatest of them and
  \<open>averagePauseDuration\<close> is \<open>toFixed(2)\<close> of their mean in double arithmetic (the sum
  taken from the left, divided by the count); both are strings with two decimals when
  the pauses and their mean are below \<open>10^21\<close>. The rounding of the sum and of the quotient
  can move the second decimal away from that of the exact mean: see the counterexample.
\<close>

theorem analyzeMetrics_pauses:
  "ws \<noteq> [] \<Longrightarrow>
   (let r = analyzeMetrics (WArray ws) d; P = long_gaps ws
    in find_pauses ws 1 [] = P
       \<and> get_prop r ''pauseCount'' = Some (JNum (Fin (of_nat (length P))))
       \<and> length P = card {i. 1 \<le> i \<and> i < length ws \<and> js_gt (gap ws i) (num (1 / 5))}
       \<and> (P \<noteq> [] \<longrightarrow>
            (\<exists>m. m \<in> set P \<and> (\<forall>g\<in>set P. \<not> js_gt g m)
                 \<and> get_prop r ''longestPause'' = Some (toFixed2 m))
            \<and> get_prop r ''averagePauseDuration'' = Some (toFixed2 (js_mean P)))
       \<and> (P \<noteq> [] \<and> (\<forall>g\<in>set P. fixed_range g) \<and> fixed_range (js_mean P) \<longrightarrow>
            (\<exists>m. m \<in> set P \<and> (\<forall>g\<in>set P. \<not> js_gt g m)
                 \<and> get_prop r ''longestPause'' = Some (JStr (two_decimals (rat_of m))))
            \<and> get_prop r ''averagePauseDuration''
                 = Some (JStr (two_decimals (rat_of (js_mean P))))))"
proof -
  assume ne: "ws \<noteq> []"
  let ?P = "long_gaps ws"
  let ?r = "analyzeMetrics (WArray ws) d"
  have count: "find_pauses ws 1 [] = ?P"
    "get_prop ?r ''pauseCount'' = Some (JNum (Fin (of_nat (length ?P))))"
    using ne by (simp_all add: analyzeMetrics_array pauseCount_prop find_pauses_long_gaps)
  have pos: "\<forall>g\<in>set ?P. positive_value g"
    by (rule long_gaps_positive_value)
  have fields: "get_prop ?r ''longestPause'' = Some (toFixed2 (Math_max ?P))"
    "get_prop ?r ''averagePauseDuration'' = Some (toFixed2 (js_mean ?P))" if "?P \<noteq> []"
    using ne that by (simp_all add: analyzeMetrics_array longestPause_prop averagePauseDuration_prop)
  have top: "Math_max ?P \<in> set ?P \<and> (\<forall>g\<in>set ?P. \<not> js_gt g (Math_max ?P))" if "?P \<noteq> []"
    using that pos by (rule Math_max_greatest)
  have rendered: "toFixed2 (Math_max ?P) = JStr (two_decimals (rat_of (Math_max ?P)))"
    "toFixed2 (js_mean ?P) = JStr (two_decimals (rat_of (js_mean ?P)))"
    if "?P \<noteq> []" "\<forall>g\<in>set ?P. fixed_range g" "fixed_range (js_mean ?P)"
  proof -
    have "positive_value (Math_max ?P)" "fixed_range (Math_max ?P)"
      using top [OF that(1)] pos that(2) by blast+
    then show "toFixed2 (Math_max ?P) = JStr (two_decimals (rat_of (Math_max ?P)))"
      by (rule toFixed2_fixed_range)
    show "toFixed2 (js_mean ?P) = JStr (two_decimals (rat_of (js_mean ?P)))"
      using js_mean_positive [OF that(1) pos] that(3) by (rule toFixed2_fixed_range)
  qed
  have first: "(\<exists>m. m \<in> set ?P \<and> (\<forall>g\<in>set ?P. \<not> js_gt g m)
                 \<and> get_prop ?r ''longestPause'' = Some (toFixed2 m))
               \<and> get_prop ?r ''averagePauseDuration'' = Some (toFixed2 (js_mean ?P))"
    if "?P \<noteq> []"
    using top [OF that] fields [OF that] by blast
  have second: "(\<exists>m. m \<in> set ?P \<and> (\<forall>g\<in>set ?P. \<not> js_gt g m)
                 \<and> get_prop ?r ''longestPause'' = Some (JStr (two_decimals (rat_of m))))
               \<and> get_prop ?r ''averagePauseDuration''
                    = Some (JStr (two_decimals (rat_of (js_mean ?P))))"
    if "?P \<noteq> []" "\<forall>g\<in>set ?P. fixed_range g" "fixed_range (js_mean ?P)"
    using top [OF that(1)] fields [OF that(1)] rendered [OF that] by metis
  show ?thesis
    unfolding Let_def using count length_long_gaps_card [of ws] first second by blast
qed

theorem analyzeMetrics_pauses_witness:
  "four_words \<noteq> []
   \<and> long_gaps four_words = [Fin (1 / 2), Fin (5 / 4)]
   \<and> fixed_range (Fin (1 / 2)) \<and> fixed_range (Fin (5 / 4))
   \<and> js_mean [Fin (1 / 2), Fin (5 / 4)] = Fin (7 / 8) \<and> fixed_range (Fin (7 / 8))
   \<and> get_prop (analyzeMetrics (WArray four_words) (Fin 2)) ''pauseCount'' = Some (JNum (Fin 2))
   \<and> get_prop (analyzeMetrics (WArray four_words) (Fin 2)) ''longestPause''
        = Some (JStr ''1.25'')
   \<and> get_prop (analyzeMetrics (WArray four_words) (Fin 2)) ''averagePauseDuration''
        = Some (JStr ''0.88'')"
proof -
  have ne: "four_words \<noteq> []"
    by (simp add: four_words_def)
  have gaps: "long_gaps four_words = [Fin (1 / 2), Fin (5 / 4)]"
    by code_simp
  have mean: "js_mean [Fin (1 / 2), Fin (5 / 4)] = Fin (7 / 8)"
    by code_simp
  have order: "\<not> js_gt (Fin (5 / 4)) (Fin (1 / 2)) \<longleftrightarrow> False"
    by (simp add: js_gt_def rat_of_def)
  have range: "fixed_range (Fin (1 / 2))" "fixed_range (Fin (5 / 4))" "fixed_range (Fin (7 / 8))"
    by (simp_all add: fixed_range_def is_finite_def rat_of_def)
  have "two_decimals (5 / 4) = ''1.25''" and "two_decimals (7 / 8) = ''0.88''"
    by code_simp+
  then show ?thesis
    using analyzeMetrics_pauses [OF ne, of "Fin 2"]
    by (auto simp: Let_def gaps ne mean range order rat_of_def)
qed

theorem analyzeMetrics_pauses_counterexample:
  "three_words \<noteq> []
   \<and> long_gaps three_words
       = [Fin (7566047373982433 / 36028797018963968), Fin (1170935903116329 / 4503599627370496)]
   \<and> get_prop (analyzeMetrics (WArray three_words) (Fin 1)) ''averagePauseDuration''
       = Some (JStr ''0.23'')
   \<and> two_decimals
        ((7566047373982433 / 36028797018963968 + 1170935903116329 / 4503599627370496) / 2)
       = ''0.24''
   \<and> two_decimals ((21 / 100 + 26 / 100) / 2) = ''0.24''"
proof -
  have ne: "three_words \<noteq> []"
    by (simp add: three_words_def)
  have "long_gaps three_words
       = [Fin (7566047373982433 / 36028797018963968), Fin (1170935903116329 / 4503599627370496)]"
    by code_simp
  moreover have "get_prop (analyzeMetrics (WArray three_words) (Fin 1)) ''averagePauseDuration''
       = Some (JStr ''0.23'')"
    by code_simp
  moreover have "two_decimals
        ((7566047373982433 / 36028797018963968 + 1170935903116329 / 4503599627370496) / 2)
       = ''0.24''"
    by code_simp
  moreover have "two_decimals ((21 / 100 + 26 / 100) / 2) = ''0.24''"
    by code_simp
  ultimately show ?thesis
    using ne by blast
qed

text \<open>
  Claim C4, as amended. For a non-empty array of words and a duration \<open>d\<close>,
  \<open>wordsPerMinute\<close> is \<open>Math.round\<close> of the value \<open>p\<close> of \<open>(words.length / d) * 60\<close> in
  double arithmetic, the quotient rounded to a double before the product is. When \<open>p\<close> is
  finite the result is the integer \<open>\<lfloor>p + 1/2\<rfloor>\<close>, at most one half away from \<open>p\<close>; when
  \<open>p\<close> is an infinity or NaN the result is \<open>p\<close>. The two roundings can move the result one
  away from the exact quotient rounded: see the counterexample.
\<close>

theorem analyzeMetrics_wordsPerMinute:
  "ws \<noteq> [] \<Longrightarrow>
   (let n = of_nat (length ws);
        p = js_mul (js_div (Fin n) (canon d)) (Fin 60);
        w = Math_round p
    in get_prop (analyzeMetrics (WArray ws) d) ''wordsPerMinute'' = Some (JNum w)
       \<and> (canon d = Fin r \<and> r \<noteq> 0 \<and> round_double (n / r) = Fin x \<and> x \<noteq> 0 \<longrightarrow>
            p = round_double (x * 60))
       \<and> (is_finite p \<longrightarrow>
            is_finite w \<and> rat_of w = of_int \<lfloor>rat_of p + 1 / 2\<rfloor>
            \<and> \<bar>rat_of w - rat_of p\<bar> \<le> 1 / 2)
       \<and> (\<not> is_finite p \<longrightarrow> w = p))"
proof -
  assume ne: "ws \<noteq> []"
  let ?n = "of_nat (length ws) :: rat"
  let ?p = "js_mul (js_div (Fin ?n) (canon d)) (Fin 60)"
  have n: "?n \<noteq> 0" using ne by simp
  have field: "get_prop (analyzeMetrics (WArray ws) d) ''wordsPerMinute''
                 = Some (JNum (Math_round ?p))"
    using ne by (simp add: analyzeMetrics_array wordsPerMinute_prop)
  have twice: "?p = round_double (x * 60)"
    if "canon d = Fin r" "r \<noteq> 0" "round_double (?n / r) = Fin x" "x \<noteq> 0"
    using that n
    by (simp add: js_div_def js_mul_def is_inf_def is_zero_def rat_of_def Let_def)
  have near: "\<bar>rat_of (Math_round ?p) - rat_of ?p\<bar> \<le> 1 / 2" if "is_finite ?p"
    using nearest_integer [of "rat_of ?p"] Math_round_finite [OF that] by simp
  show ?thesis
    unfolding Let_def
    using field twice near Math_round_finite [of ?p] Math_round_not_finite [of ?p] by blast
qed

theorem analyzeMetrics_wordsPerMinute_witness:
  "four_words \<noteq> []
   \<and> canon (Fin 3) = Fin 3 \<and> (3 :: rat) \<noteq> 0
   \<and> round_double (of_nat (length four_words) / 3) = Fin (6004799503160661 / 4503599627370496)
   \<and> round_double (6004799503160661 / 4503599627370496 * 60) = Fin 80
   \<and> is_finite (Fin 80)
   \<and> get_prop (analyzeMetrics (WArray four_words) (Fin 3)) ''wordsPerMinute''
        = Some (JNum (Fin 80))"
proof -
  have ne: "four_words \<noteq> []"
    by (simp add: four_words_def)
  have len: "length four_words = 4"
    by (simp add: four_words_def)
  have canon: "canon (Fin 3) = Fin 3"
    by code_simp
  have quotient: "round_double (4 / 3) = Fin (6004799503160661 / 4503599627370496)"
    by code_simp
  have product: "round_double (6004799503160661 / 4503599627370496 * 60) = Fin 80"
    by code_simp
  have product': "round_double (90071992547409915 / 1125899906842624) = Fin 80"
    using product by simp
  have floor: "\<lfloor>161 / 2 :: rat\<rfloor> = 80"
    by (simp add: floor_eq_iff)
  show ?thesis
    using analyzeMetrics_wordsPerMinute [OF ne, of "Fin 3" 3 "6004799503160661 / 4503599627370496"]
    by (simp add: Let_def ne len canon quotient product' floor is_finite_def Math_round_def
        js_div_def js_mul_def is_inf_def is_zero_def rat_of_def)
qed

theorem analyzeMetrics_wordsPerMinute_counterexample:
  "length forty_one_words = 41
   \<and> get_prop (analyzeMetrics (WArray forty_one_words) (Fin 40)) ''wordsPerMinute''
       = Some (JNum (Fin 61))
   \<and> \<lfloor>(41 / 40 * 60 :: rat) + 1 / 2\<rfloor> = 62
   \<and> num (8 / 5) = Fin (3602879701896397 / 2251799813685248)
   \<and> get_prop (analyzeMetrics (WArray [\<lparr>word = ''hello'', start = 0, end' = 1\<rparr>]) (num (8 / 5)))
        ''wordsPerMinute'' = Some (JNum (Fin 38))
   \<and> \<lfloor>(1 / (3602879701896397 / 2251799813685248) * 60 :: rat) + 1 / 2\<rfloor> = 37"
proof -
  have len: "length forty_one_words = 41"
    by (simp add: forty_one_words_def)
  then have ne: "forty_one_words \<noteq> []"
    by auto
  have first: "Math_round (js_mul (js_div (Fin 41) (canon (Fin 40))) (Fin 60)) = Fin 61"
    by code_simp
  have second: "Math_round (js_mul (js_div (Fin 1) (canon (num (8 / 5)))) (Fin 60)) = Fin 38"
    by code_simp
  have d: "num (8 / 5) = Fin (3602879701896397 / 2251799813685248)"
    unfolding num_def by code_simp
  have "get_prop (analyzeMetrics (WArray forty_one_words) (Fin 40)) ''wordsPerMinute''
       = Some (JNum (Fin 61))"
    using ne by (simp add: analyzeMetrics_array wordsPerMinute_prop len first)
  moreover have "get_prop (analyzeMetrics (WArray [\<lparr>word = ''hello'', start = 0, end' = 1\<rparr>])
        (num (8 / 5))) ''wordsPerMinute'' = Some (JNum (Fin 38))"
    using second by (simp add: analyzeMetrics_array wordsPerMinute_prop)
  moreover have "\<lfloor>(41 / 40 * 60 :: rat) + 1 / 2\<rfloor> = 62"
    by (simp add: floor_eq_iff)
  moreover have "\<lfloor>(1 / (3602879701896397 / 2251799813685248) * 60 :: rat) + 1 / 2\<rfloor> = 37"
    by (simp add: floor_eq_iff)
  ultimately show ?thesis
    using len d by blast
qed

text \<open>
  Claim C9. The object returned for a non-empty array of words has the property
  \<open>pauseCount\<close>; the default object returned for missing or empty words has not: the two
  results have different shapes.
\<close>

theorem analyzeMetrics_shape:
  "(ws \<noteq> [] \<longrightarrow>
      map fst (analyzeMetrics (WArray ws) d) =
        [''wordsPerMinute'', ''averagePauseDuration'', ''longestPause'', ''fillerWordCount'',
         ''pauseCount'', ''pacingVariation'']
      \<and> has_prop (analyzeMetrics (WArray ws) d) ''pauseCount'')
   \<and> (words = WNull \<or> words = WUndefined \<or> words = WArray [] \<longrightarrow>
      map fst (analyzeMetrics words d) =
        [''wordsPerMinute'', ''averagePauseDuration'', ''longestPause'', ''fillerWordCount'',
         ''pacingVariation'']
      \<and> \<not> has_prop (analyzeMetrics words d) ''pauseCount'')"
  by (auto simp: analyzeMetrics_def analyze_words_def default_metrics_def has_prop_def Let_def)

theorem analyzeMetrics_shape_witness:
  "four_words \<noteq> []
   \<and> has_prop (analyzeMetrics (WArray four_words) (Fin 2)) ''pauseCount''
   \<and> (WNull = WNull \<or> WNull = WUndefined \<or> WNull = WArray [])
   \<and> \<not> has_prop (analyzeMetrics WNull (Fin 2)) ''pauseCount''"
proof -
  have "four_words \<noteq> []"
    by (simp add: four_words_def)
  then show ?thesis
    using analyzeMetrics_shape [of four_words "Fin 2" WNull] by simp
qed

text \<open>
  Claim C10. In the result for a non-empty array of words, \<open>averagePauseDuration\<close> and
  \<open>longestPause\<close> are the number \<open>0\<close> when no pause was detected and strings when one
  was: the type of the two properties depends on the input. The strings have two
  decimals when the pauses and their mean are below \<open>10^21\<close> seconds, as they are for the
  timestamps of a recording.
\<close>

theorem analyzeMetrics_pause_field_types:
  "ws \<noteq> [] \<Longrightarrow>
   (let r = analyzeMetrics (WArray ws) d; P = long_gaps ws
    in (P = [] \<longrightarrow>
          get_prop r ''averagePauseDuration'' = Some (JNum (Fin 0))
          \<and> get_prop r ''longestPause'' = Some (JNum (Fin 0)))
       \<and> (P \<noteq> [] \<longrightarrow>
          (\<exists>a l. get_prop r ''averagePauseDuration'' = Some a \<and> is_string a
                 \<and> get_prop r ''longestPause'' = Some l \<and> is_string l))
       \<and> (P \<noteq> [] \<and> (\<forall>g\<in>set P. fixed_range g) \<and> fixed_range (js_mean P) \<longrightarrow>
          (\<exists>a l. get_prop r ''averagePauseDuration'' = Some (JStr a) \<and> two_decimal_string a
                 \<and> get_prop r ''longestPause'' = Some (JStr l) \<and> two_decimal_string l)))"
proof -
  assume ne: "ws \<noteq> []"
  let ?P = "long_gaps ws"
  let ?r = "analyzeMetrics (WArray ws) d"
  have pos: "\<forall>g\<in>set ?P. positive_value g"
    by (rule long_gaps_positive_value)
  have none: "get_prop ?r ''averagePauseDuration'' = Some (JNum (Fin 0))"
    "get_prop ?r ''longestPause'' = Some (JNum (Fin 0))" if "?P = []"
    using ne that by (simp_all add: analyzeMetrics_array longestPause_prop averagePauseDuration_prop)
  have fields: "get_prop ?r ''longestPause'' = Some (toFixed2 (Math_max ?P))"
    "get_prop ?r ''averagePauseDuration'' = Some (toFixed2 (js_mean ?P))" if "?P \<noteq> []"
    using ne that by (simp_all add: analyzeMetrics_array longestPause_prop averagePauseDuration_prop)
  have strings: "\<exists>a l. get_prop ?r ''averagePauseDuration'' = Some a \<and> is_string a
                 \<and> get_prop ?r ''longestPause'' = Some l \<and> is_string l" if "?P \<noteq> []"
    using fields [OF that] toFixed2_string by simp
  have decimals: "\<exists>a l. get_prop ?r ''averagePauseDuration'' = Some (JStr a)
                 \<and> two_decimal_string a
                 \<and> get_prop ?r ''longestPause'' = Some (JStr l) \<and> two_decimal_string l"
    if "?P \<noteq> []" "\<forall>g\<in>set ?P. fixed_range g" "fixed_range (js_mean ?P)"
  proof -
    have "Math_max ?P \<in> set ?P"
      using Math_max_greatest [OF that(1) pos] by simp
    then have "toFixed2 (Math_max ?P) = JStr (two_decimals (rat_of (Math_max ?P)))"
      using pos that(2) by (intro toFixed2_fixed_range) blast+
    moreover have "toFixed2 (js_mean ?P) = JStr (two_decimals (rat_of (js_mean ?P)))"
      using js_mean_positive [OF that(1) pos] that(3) by (rule toFixed2_fixed_range)
    ultimately show ?thesis
      using fields [OF that(1)] two_decimal_string_two_decimals by simp
  qed
  show ?thesis
    unfolding Let_def using none strings decimals by blast
qed

theorem analyzeMetrics_pause_field_types_witness:
  "four_words \<noteq> []
   \<and> long_gaps four_words = [Fin (1 / 2), Fin (5 / 4)]
   \<and> fixed_range (Fin (1 / 2)) \<and> fixed_range (Fin (5 / 4))
   \<and> js_mean [Fin (1 / 2), Fin (5 / 4)] = Fin (7 / 8) \<and> fixed_range (Fin (7 / 8))
   \<and> get_prop (analyzeMetrics (WArray four_words) (Fin 2)) ''averagePauseDuration''
        = Some (JStr ''0.88'')
   \<and> two_decimal_string ''0.88''
   \<and> [\<lparr>word = ''hi'', start = 0, end' = 1 / 5\<rparr>, \<lparr>word = ''you'', start = 2 / 5, end' = 1\<rparr>]
        \<noteq> []
   \<and> long_gaps [\<lparr>word = ''hi'', start = 0, end' = 1 / 5\<rparr>,
                 \<lparr>word = ''you'', start = 2 / 5, end' = 1\<rparr>] = []
   \<and> get_prop (analyzeMetrics (WArray [\<lparr>word = ''hi'', start = 0, end' = 1 / 5\<rparr>,
          \<lparr>word = ''you'', start = 2 / 5, end' = 1\<rparr>]) (Fin 2))
        ''averagePauseDuration'' = Some (JNum (Fin 0))"
proof -
  let ?two = "[\<lparr>word = ''hi'', start = 0, end' = 1 / 5\<rparr>, \<lparr>word = ''you'', start = 2 / 5, end' = 1\<rparr>]"
  have ne: "four_words \<noteq> []"
    by (simp add: four_words_def)
  have gaps: "long_gaps four_words = [Fin (1 / 2), Fin (5 / 4)]"
    by code_simp
  have mean: "js_mean [Fin (1 / 2), Fin (5 / 4)] = Fin (7 / 8)"
    by code_simp
  have none: "long_gaps ?two = []"
    by code_simp
  have range: "fixed_range (Fin (1 / 2))" "fixed_range (Fin (5 / 4))" "fixed_range (Fin (7 / 8))"
    by (simp_all add: fixed_range_def is_finite_def rat_of_def)
  have avg: "get_prop (analyzeMetrics (WArray four_words) (Fin 2)) ''averagePauseDuration''
               = Some (JStr ''0.88'')"
  proof -
    have "two_decimals (7 / 8) = ''0.88''"
      by code_simp
    then show ?thesis
      using ne by (simp add: analyzeMetrics_array averagePauseDuration_prop gaps mean
          toFixed2_two_decimals)
  qed
  have "two_decimal_string ''0.88''"
    by code_simp
  then show ?thesis
    using analyzeMetrics_pause_field_types [OF ne, of "Fin 2"]
      analyzeMetrics_pause_field_types [of ?two "Fin 2"]
    by (simp add: Let_def gaps none ne mean range avg)
qed

text \<open>
  Claim C8. With a non-empty array of words and a duration of zero, the division is not
  guarded and \<open>wordsPerMinute\<close> is an infinity. The audio handler passes the duration
  \<open>0\<close> when the form has no \<open>duration\<close> field and the transcription has no \<open>duration\<close>:
  its response then carries that infinity.
\<close>

theorem zero_duration_not_finite:
  "ws \<noteq> [] \<Longrightarrow>
   (d = Fin 0 \<or> d = NegZero \<longrightarrow>
      (\<exists>v. get_prop (analyzeMetrics (WArray ws) d) ''wordsPerMinute'' = Some (JNum v)
           \<and> \<not> is_finite v))
   \<and> (http_method req = ''POST''
        \<and> content_type req = Some ct \<and> str_includes ct ''multipart/form-data''
        \<and> form req = Inr parsed \<and> audio parsed = Some name \<and> duration_field parsed = None
        \<and> transcription env = Inr t \<and> t_words t = WArray ws \<and> t_duration t = None
        \<and> completion env = Inr content \<longrightarrow>
      status (reply (handler env req)) = 200
      \<and> body (reply (handler env req)) =
          Some (JObj [(''feedback'', JStr (feedback_of content)),
                      (''transcript'', JStr (t_text t)),
                      (''metrics'', JObj (analyzeMetrics (WArray ws) (Fin 0)))])
      \<and> get_prop (analyzeMetrics (WArray ws) (Fin 0)) ''wordsPerMinute'' = Some (JNum PosInf))"
proof -
  assume ne: "ws \<noteq> []"
  have "\<not> is_finite PosInf" and "\<not> is_finite NegInf"
    by (simp_all add: is_finite_def)
  then show ?thesis
    using wordsPerMinute_zero_duration [OF ne]
    by (auto simp: handler_def handler_try_def handler_duration_def words_or_empty_def Let_def)
qed

theorem zero_duration_not_finite_witness:
  "four_words \<noteq> [] \<and> (Fin 0 = Fin 0 \<or> Fin 0 = NegZero)
   \<and> get_prop (analyzeMetrics (WArray four_words) (Fin 0)) ''wordsPerMinute'' = Some (JNum PosInf)
   \<and> \<not> is_finite PosInf
   \<and> http_method audio_request = ''POST''
   \<and> str_includes ''multipart/form-data; boundary=XYZ'' ''multipart/form-data''
   \<and> body (reply (handler working_platform audio_request)) =
        Some (JObj [(''feedback'', JStr ''Summary: fine.''),
                    (''transcript'', JStr ''so this is it''),
                    (''metrics'', JObj (analyzeMetrics (WArray four_words) (Fin 0)))])"
proof -
  have ne: "four_words \<noteq> []"
    by (simp add: four_words_def)
  have inc: "str_includes ''multipart/form-data; boundary=XYZ'' ''multipart/form-data''"
    by simp
  have fb: "feedback_of (Some ''Summary: fine.'') = ''Summary: fine.''"
    by (simp add: feedback_of_def trim_def is_space_def)
  show ?thesis
    using zero_duration_not_finite [OF ne, of "Fin 0" audio_request
        "''multipart/form-data; boundary=XYZ''"
        "\<lparr>audio = Some ''speech.webm'', duration_field = None\<rparr>" "''speech.webm''"
        working_platform plain_transcript "Some ''Summary: fine.''"]
    by (simp add: ne inc fb audio_request_def working_platform_def plain_transcript_def
        is_finite_def)
qed

section \<open>Properties of the reminder flow\<close>

lemma shown_at_most_one: "length (shown (sendDailyReminder env d)) \<le> 1"
  by (simp add: sendDailyReminder_def Let_def split: prod.splits option.splits)

lemma nothing_shown_db: "shown (sendDailyReminder env d) = [] \<Longrightarrow> db_after (sendDailyReminder env d) = d"
  by (simp add: sendDailyReminder_def Let_def split: prod.splits option.splits if_splits)

lemma shown_should: "shown (sendDailyReminder env d) \<noteq> [] \<Longrightarrow> fst (shouldSendNotification env d)"
  by (cases "shouldSendNotification env d")
    (auto simp: sendDailyReminder_def Let_def split: if_splits)

lemma should_conditions:
  assumes "fst (shouldSendNotification env d)"
  shows "\<exists>s t. settings_notifications d = Some s \<and> enabled s
           \<and> \<not> settings_read_fails env \<and> \<not> stats_read_fails env
           \<and> \<not> practiced_today (stats_daily d) (toDateString (today_clock env))
           \<and> lastNotificationDate s \<noteq> Some (toDateString (today_clock env))
           \<and> time s = Some t
           \<and> isPastTime (now_clock env)
                (element (map (Number env) (js_split CHR '':'' t)) 0)
                (element (map (Number env) (js_split CHR '':'' t)) 1)"
  using assms
  by (auto simp: shouldSendNotification_def Let_def split: option.splits if_splits)

lemma marked_blocks:
  assumes "settings_notifications d = Some s"
    and "lastNotificationDate s = Some (toDateString (today_clock env))"
  shows "shown (sendDailyReminder env d) = []"
proof -
  have "\<not> fst (shouldSendNotification env d)"
    using assms should_conditions [of env d] by auto
  then show ?thesis
    using shown_should by blast
qed

lemma shown_marks:
  assumes "shown (sendDailyReminder env d) \<noteq> []"
    and "\<not> settings_reread_fails env" and "\<not> save_fails env"
  shows "\<exists>s. settings_notifications (db_after (sendDailyReminder env d)) = Some s
             \<and> lastNotificationDate s = Some (toDateString (mark_clock env))"
proof -
  obtain s where "settings_notifications d = Some s"
    using should_conditions [OF shown_should [OF assms(1)]] by blast
  then show ?thesis
    using assms
    by (auto simp: sendDailyReminder_def Let_def split: prod.splits if_splits)
qed

lemma marked_runs:
  assumes "settings_notifications d = Some s" and "lastNotificationDate s = Some day"
    and "\<forall>env\<in>set envs. toDateString (today_clock env) = day"
  shows "run_reminders envs d = (d, [])"
  using assms
proof (induction envs)
  case Nil
  then show ?case by simp
next
  case (Cons env envs)
  then have none: "shown (sendDailyReminder env d) = []"
    using marked_blocks [of d s env] by simp
  then have "db_after (sendDailyReminder env d) = d"
    by (rule nothing_shown_db)
  with none Cons show ?case by simp
qed

lemma one_per_day:
  assumes "\<forall>env\<in>set envs. toDateString (today_clock env) = day
              \<and> toDateString (mark_clock env) = day
              \<and> \<not> settings_reread_fails env \<and> \<not> save_fails env"
  shows "length (snd (run_reminders envs d)) \<le> 1"
  using assms
proof (induction envs arbitrary: d)
  case Nil
  then show ?case by simp
next
  case (Cons env envs)
  let ?r = "sendDailyReminder env d"
  show ?case
  proof (cases "shown ?r = []")
    case True
    then have "db_after ?r = d" by (rule nothing_shown_db)
    with True Cons show ?thesis
      by (simp add: Let_def split: prod.splits)
  next
    case False
    with Cons.prems obtain s where "settings_notifications (db_after ?r) = Some s"
      and "lastNotificationDate s = Some day"
      using shown_marks [of env d] by auto
    then have "run_reminders envs (db_after ?r) = (db_after ?r, [])"
      using Cons.prems by (intro marked_runs) auto
    then show ?thesis
      using shown_at_most_one [of env d] by (simp add: Let_def)
  qed
qed

lemma isPastTime_clock:
  "isPastTime now (Fin (of_nat h)) (Fin (of_nat m))
     \<longleftrightarrow> h < getHours now \<or> (h = getHours now \<and> m \<le> getMinutes now)"
  by (auto simp: isPastTime_def js_gt_def js_eq_def js_ge_def rat_of_def is_inf_def Let_def)

lemma should_no_lines:
  "fst (shouldSendNotification env d) \<Longrightarrow> snd (shouldSendNotification env d) = []"
  by (auto simp: shouldSendNotification_def Let_def split: option.splits if_splits)

lemma shown_not_rejected: "shown (sendDailyReminder env d) \<noteq> [] \<Longrightarrow> \<not> rejected (sendDailyReminder env d)"
  by (cases "shouldSendNotification env d")
    (auto simp: sendDailyReminder_def Let_def split: if_splits option.splits)

lemma shown_marked_quietly:
  assumes "shown (sendDailyReminder env d) \<noteq> []"
    and "\<not> settings_reread_fails env" and "\<not> save_fails env"
  shows "logged (sendDailyReminder env d) = []"
proof -
  have should: "fst (shouldSendNotification env d)"
    using assms(1) by (rule shown_should)
  obtain s where "settings_notifications d = Some s"
    using should_conditions [OF should] by blast
  then show ?thesis
    using assms should should_no_lines [OF should]
    by (cases "shouldSendNotification env d")
      (auto simp: sendDailyReminder_def Let_def split: if_splits)
qed

lemma shown_mark_failed:
  assumes "shown (sendDailyReminder env d) \<noteq> []"
    and "settings_reread_fails env \<or> save_fails env"
  shows "db_after (sendDailyReminder env d) = d"
    and "logged (sendDailyReminder env d) = [''Error updating notification date:'']"
proof -
  have should: "fst (shouldSendNotification env d)"
    using assms(1) by (rule shown_should)
  obtain s where s: "settings_notifications d = Some s"
    using should_conditions [OF should] by blast
  show "db_after (sendDailyReminder env d) = d"
    using assms s should
    by (cases "shouldSendNotification env d")
      (auto simp: sendDailyReminder_def Let_def split: if_splits)
  show "logged (sendDailyReminder env d) = [''Error updating notification date:'']"
    using assms s should should_no_lines [OF should]
    by (cases "shouldSendNotification env d")
      (auto simp: sendDailyReminder_def Let_def split: if_splits)
qed

text \<open>
  Claim C7, as amended. A run of the reminder flow shows a notification only if the stored
  settings have notifications enabled, the stored stats record no practiced speech for
  today, \<open>lastNotificationDate\<close> differs from today, and the clock is at or past the
  scheduled time. After showing it, the run sets \<open>lastNotificationDate\<close> to the current
  date when the settings can be read back and saved, and logs nothing. When the read or
  the write fails, the error is caught and logged, the database is left as it was, and
  the run still ends without rejecting. So consecutive runs on one calendar day, in which
  these two storage operations succeed, show at most one reminder.
\<close>

theorem daily_reminder_guarded:
  "(shown (sendDailyReminder env d) \<noteq> [] \<longrightarrow>
      (\<exists>s t. settings_notifications d = Some s \<and> enabled s
         \<and> \<not> (\<exists>st. stats_daily d = Some st
                    \<and> lastDate st = Some (toDateString (today_clock env))
                    \<and> 0 < todaySpeeches st)
         \<and> lastNotificationDate s \<noteq> Some (toDateString (today_clock env))
         \<and> time s = Some t
         \<and> isPastTime (now_clock env)
              (element (map (Number env) (js_split CHR '':'' t)) 0)
              (element (map (Number env) (js_split CHR '':'' t)) 1)))
   \<and> (isPastTime now (Fin (of_nat h)) (Fin (of_nat m))
        \<longleftrightarrow> h < getHours now \<or> (h = getHours now \<and> m \<le> getMinutes now))
   \<and> length (shown (sendDailyReminder env d)) \<le> 1
   \<and> (shown (sendDailyReminder env d) \<noteq> []
        \<and> \<not> settings_reread_fails env \<and> \<not> save_fails env \<longrightarrow>
      (\<exists>s. settings_notifications (db_after (sendDailyReminder env d)) = Some s
          \<and> lastNotificationDate s = Some (toDateString (mark_clock env)))
      \<and> logged (sendDailyReminder env d) = []
      \<and> \<not> rejected (sendDailyReminder env d))
   \<and> (shown (sendDailyReminder env d) \<noteq> []
        \<and> (settings_reread_fails env \<or> save_fails env) \<longrightarrow>
      db_after (sendDailyReminder env d) = d
      \<and> logged (sendDailyReminder env d) = [''Error updating notification date:'']
      \<and> \<not> rejected (sendDailyReminder env d))
   \<and> ((\<forall>e\<in>set envs. toDateString (today_clock e) = day
                      \<and> toDateString (mark_clock e) = day
                      \<and> \<not> settings_reread_fails e \<and> \<not> save_fails e) \<longrightarrow>
      length (snd (run_reminders envs d)) \<le> 1)"
proof -
  have "\<exists>s t. settings_notifications d = Some s \<and> enabled s
         \<and> \<not> (\<exists>st. stats_daily d = Some st
                    \<and> lastDate st = Some (toDateString (today_clock env))
                    \<and> 0 < todaySpeeches st)
         \<and> lastNotificationDate s \<noteq> Some (toDateString (today_clock env))
         \<and> time s = Some t
         \<and> isPastTime (now_clock env)
              (element (map (Number env) (js_split CHR '':'' t)) 0)
              (element (map (Number env) (js_split CHR '':'' t)) 1)"
    if "shown (sendDailyReminder env d) \<noteq> []"
    using should_conditions [OF shown_should [OF that]]
    by (auto simp: practiced_today_def)
  moreover have "logged (sendDailyReminder env d) = []"
    if "shown (sendDailyReminder env d) \<noteq> []" "\<not> settings_reread_fails env" "\<not> save_fails env"
    using that by (rule shown_marked_quietly)
  moreover have "db_after (sendDailyReminder env d) = d
      \<and> logged (sendDailyReminder env d) = [''Error updating notification date:'']"
    if "shown (sendDailyReminder env d) \<noteq> []" "settings_reread_fails env \<or> save_fails env"
    using shown_mark_failed [OF that] by simp
  ultimately show ?thesis
    using isPastTime_clock shown_at_most_one shown_marks one_per_day shown_not_rejected
    by blast
qed

theorem daily_reminder_guarded_witness:
  "shown (sendDailyReminder calm_env reminder_db) = [''Ready to build your speaking confidence?'']
   \<and> \<not> settings_reread_fails calm_env \<and> \<not> save_fails calm_env
   \<and> settings_notifications (db_after (sendDailyReminder calm_env reminder_db))
       = Some \<lparr>enabled = True, time = Some ''09:00'',
               lastNotificationDate = Some ''Tue Nov 03 2026''\<rparr>
   \<and> isPastTime morning (Fin (of_nat 9)) (Fin (of_nat 0))
   \<and> snd (run_reminders [calm_env, calm_env, calm_env] reminder_db)
       = [''Ready to build your speaking confidence?'']
   \<and> logged (sendDailyReminder calm_env reminder_db) = []
   \<and> shown (sendDailyReminder failing_save_env reminder_db)
       = [''Ready to build your speaking confidence?'']
   \<and> save_fails failing_save_env
   \<and> logged (sendDailyReminder failing_save_env reminder_db)
       = [''Error updating notification date:'']
   \<and> \<not> rejected (sendDailyReminder failing_save_env reminder_db)"
proof -
  have split: "js_split CHR '':'' ''09:00'' = [''09'', ''00'']"
    by simp
  have past: "isPastTime morning (Fin 9) (Fin 0)"
    by (simp add: isPastTime_def morning_def js_gt_def js_eq_def js_ge_def rat_of_def
        is_inf_def)
  have first: "sendDailyReminder calm_env reminder_db =
      \<lparr>db_after = \<lparr>settings_notifications =
                      Some \<lparr>enabled = True, time = Some ''09:00'',
                            lastNotificationDate = Some ''Tue Nov 03 2026''\<rparr>,
                    stats_daily = None\<rparr>,
       shown = [''Ready to build your speaking confidence?''], logged = [],
       rejected = False\<rparr>"
    using past
    by (simp add: sendDailyReminder_def shouldSendNotification_def calm_env_def
        reminder_db_def practiced_today_def split sample_Number_def element_def MESSAGES_def
        morning_def)
  have later: "shown (sendDailyReminder calm_env (db_after (sendDailyReminder calm_env reminder_db))) = []"
  proof (rule marked_blocks)
    show "settings_notifications (db_after (sendDailyReminder calm_env reminder_db))
            = Some \<lparr>enabled = True, time = Some ''09:00'',
                    lastNotificationDate = Some ''Tue Nov 03 2026''\<rparr>"
      by (simp add: first)
    show "lastNotificationDate \<lparr>enabled = True, time = Some ''09:00'',
              lastNotificationDate = Some ''Tue Nov 03 2026''\<rparr>
            = Some (toDateString (today_clock calm_env))"
      by (simp add: calm_env_def morning_def)
  qed
  have failing: "shown (sendDailyReminder failing_save_env reminder_db)
       = [''Ready to build your speaking confidence?'']"
    using past
    by (simp add: sendDailyReminder_def shouldSendNotification_def failing_save_env_def
        calm_env_def reminder_db_def practiced_today_def split sample_Number_def element_def
        MESSAGES_def morning_def)
  have fails: "save_fails failing_save_env"
    by (simp add: failing_save_env_def)
  have "logged (sendDailyReminder failing_save_env reminder_db)
          = [''Error updating notification date:'']
        \<and> \<not> rejected (sendDailyReminder failing_save_env reminder_db)"
    using daily_reminder_guarded [of failing_save_env reminder_db] failing fails by simp
  then show ?thesis
    using daily_reminder_guarded [of calm_env reminder_db morning 9 0
        "[calm_env, calm_env, calm_env]" "''Tue Nov 03 2026''"]
      later nothing_shown_db [OF later] failing fails
    by (simp add: first Let_def) (simp add: calm_env_def morning_def)
qed

theorem daily_reminder_guarded_counterexample:
  "toDateString (today_clock failing_save_env) = ''Tue Nov 03 2026''
   \<and> toDateString (mark_clock failing_save_env) = ''Tue Nov 03 2026''
   \<and> shown (sendDailyReminder failing_save_env reminder_db)
       = [''Ready to build your speaking confidence?'']
   \<and> db_after (sendDailyReminder failing_save_env reminder_db) = reminder_db
   \<and> logged (sendDailyReminder failing_save_env reminder_db)
       = [''Error updating notification date:'']
   \<and> settings_notifications reminder_db
       = Some \<lparr>enabled = True, time = Some ''09:00'', lastNotificationDate = None\<rparr>
   \<and> snd (run_reminders [failing_save_env, failing_save_env] reminder_db)
       = [''Ready to build your speaking confidence?'',
          ''Ready to build your speaking confidence?'']"
proof -
  have split: "js_split CHR '':'' ''09:00'' = [''09'', ''00'']"
    by simp
  have past: "isPastTime morning (Fin 9) (Fin 0)"
    by (simp add: isPastTime_def morning_def js_gt_def js_eq_def js_ge_def rat_of_def
        is_inf_def)
  have run: "sendDailyReminder failing_save_env reminder_db =
      \<lparr>db_after = reminder_db,
       shown = [''Ready to build your speaking confidence?''],
       logged = [''Error updating notification date:''], rejected = False\<rparr>"
    using past
    by (simp add: sendDailyReminder_def shouldSendNotification_def failing_save_env_def
        calm_env_def reminder_db_def practiced_today_def split sample_Number_def element_def
        MESSAGES_def morning_def)
  show ?thesis
    by (simp add: run Let_def) (simp add: failing_save_env_def calm_env_def morning_def reminder_db_def)
qed

section \<open>Properties of the failure paths\<close>

lemma handler_try_sources:
  "fst (handler_try env req) = Inl e \<Longrightarrow>
   form req = Inl e \<or> transcription env = Inl e \<or> completion env = Inl e"
  by (auto simp: handler_try_def Let_def split: sum.splits option.splits if_splits)

lemma handler_try_calls: "distinct (snd (snd (handler_try env req)))"
  by (auto simp: handler_try_def Let_def split: sum.splits option.splits if_splits)

lemma handler_calls: "distinct (calls (handler env req))"
  using handler_try_calls [of env req]
  by (auto simp: handler_def Let_def split: sum.splits prod.splits)

lemma handler_text_calls: "distinct (calls (handler_text outcome req))"
  by (simp add: handler_text_def split: sum.splits)

lemma handler_text_failure:
  assumes "http_method req = ''POST''" and "valid_text (body_text req)" and "outcome = Inl e"
  shows "reply (handler_text outcome req) =
           \<lparr>status = 500, headers = [],
            body = Some (JObj [(''error'', JStr ''Failed to generate feedback'')])\<rparr>"
    and "console (handler_text outcome req) = [''Feedback generation failed:'']"
  using assms by (simp_all add: handler_text_def json_error_def)

lemma handler_catch_reply:
  "status (fst (handler_catch env e)) = (if truthy_status (err_status e) then the (err_status e) else 500)"
  "\<exists>props. body (fst (handler_catch env e)) = Some (JObj props) \<and> has_prop props ''error''"
  "''Feedback generation failed:'' \<in> set (snd (handler_catch env e))"
  by (simp_all add: handler_catch_def Let_def has_prop_def)

lemma handler_failure:
  assumes "http_method req = ''POST''" and "fst (handler_try env req) = Inl e"
  shows "status (reply (handler env req))
           = (if truthy_status (err_status e) then the (err_status e) else 500)"
    and "\<exists>props. body (reply (handler env req)) = Some (JObj props) \<and> has_prop props ''error''"
    and "''Feedback generation failed:'' \<in> set (console (handler env req))"
proof -
  obtain lines started where tried: "handler_try env req = (Inl e, lines, started)"
    using assms(2) by (cases "handler_try env req") auto
  obtain r more where caught: "handler_catch env e = (r, more)"
    by (cases "handler_catch env e") auto
  have run: "handler env req = \<lparr>reply = r, console = lines @ more, calls = started\<rparr>"
    using assms(1) by (simp add: handler_def tried caught)
  show "status (reply (handler env req))
           = (if truthy_status (err_status e) then the (err_status e) else 500)"
    using handler_catch_reply(1) [of env e] by (simp add: run caught)
  show "\<exists>props. body (reply (handler env req)) = Some (JObj props) \<and> has_prop props ''error''"
    using handler_catch_reply(2) [of env e] by (simp add: run caught)
  show "''Feedback generation failed:'' \<in> set (console (handler env req))"
    using handler_catch_reply(3) [of env e] by (simp add: run caught)
qed

lemma should_read_failures:
  "settings_read_fails env \<Longrightarrow>
     shouldSendNotification env d = (False, [''Error checking notification status:''])"
  "\<not> settings_read_fails env \<Longrightarrow> settings_notifications d = Some s \<Longrightarrow> enabled s \<Longrightarrow>
   stats_read_fails env \<Longrightarrow>
     shouldSendNotification env d = (False, [''Error checking notification status:''])"
  by (simp_all add: shouldSendNotification_def)

text \<open>
  Claim C5, as amended. An error thrown in the \<open>try\<close> block of a feedback handler is
  caught and logged and answered with a JSON error response: of status 500 in the
  text-only handlers; in the audio handler of the status the error carries, when it
  carries one, and of status 500 otherwise. The notification-eligibility check logs the
  error and returns false when a storage read throws. No handler starts an operation
  twice.
\<close>

theorem failures_caught:
  "(http_method req = ''POST'' \<and> valid_text (body_text req) \<longrightarrow>
      reply (handler_text (Inl e) req) =
        \<lparr>status = 500, headers = [],
         body = Some (JObj [(''error'', JStr ''Failed to generate feedback'')])\<rparr>
      \<and> console (handler_text (Inl e) req) = [''Feedback generation failed:''])
   \<and> (http_method req = ''POST'' \<and> fst (handler_try env req) = Inl e \<longrightarrow>
      (form req = Inl e \<or> transcription env = Inl e \<or> completion env = Inl e)
      \<and> status (reply (handler env req))
          = (if truthy_status (err_status e) then the (err_status e) else 500)
      \<and> (err_status e = None \<or> (\<exists>n. err_status e = Some n \<and> 400 \<le> n \<and> n < 600) \<longrightarrow>
           400 \<le> status (reply (handler env req)) \<and> status (reply (handler env req)) < 600)
      \<and> (\<exists>props. body (reply (handler env req)) = Some (JObj props) \<and> has_prop props ''error'')
      \<and> ''Feedback generation failed:'' \<in> set (console (handler env req)))
   \<and> (settings_read_fails renv
        \<or> (settings_notifications d = Some s \<and> enabled s \<and> stats_read_fails renv) \<longrightarrow>
      shouldSendNotification renv d = (False, [''Error checking notification status:'']))
   \<and> distinct (calls (handler env req))
   \<and> distinct (calls (handler_text outcome req))"
  using handler_text_failure [of req "Inl e" e] handler_failure [of req env e]
    handler_try_sources [of env req e] should_read_failures [of renv d]
    handler_calls [of env req] handler_text_calls [of outcome req]
  by (cases "settings_read_fails renv") (auto simp: truthy_status_def)

theorem failures_caught_witness:
  "http_method text_request = ''POST'' \<and> valid_text (body_text text_request)
   \<and> status (reply (handler_text (Inl rate_limited) text_request)) = 500
   \<and> fst (handler_try (working_platform\<lparr>completion := Inl rate_limited\<rparr>) text_request)
       = Inl rate_limited
   \<and> status (reply (handler (working_platform\<lparr>completion := Inl rate_limited\<rparr>) text_request))
       = 429
   \<and> calls (handler (working_platform\<lparr>completion := Inl rate_limited\<rparr>) text_request)
       = [Complete]
   \<and> settings_read_fails (calm_env\<lparr>settings_read_fails := True\<rparr>)
   \<and> shouldSendNotification (calm_env\<lparr>settings_read_fails := True\<rparr>) reminder_db
       = (False, [''Error checking notification status:''])"
proof -
  have req: "http_method text_request = ''POST''" "valid_text (body_text text_request)"
    by (simp_all add: text_request_def valid_text_def trim_def is_space_def)
  have thrown: "handler_try (working_platform\<lparr>completion := Inl rate_limited\<rparr>) text_request
                  = (Inl rate_limited, [], [Complete])"
    using req(2) by (simp add: handler_try_def working_platform_def text_request_def)
  have status: "truthy_status (err_status rate_limited)" "the (err_status rate_limited) = 429"
    by (simp_all add: rate_limited_def truthy_status_def)
  show ?thesis
    using failures_caught [where req = text_request and e = rate_limited
        and env = "working_platform\<lparr>completion := Inl rate_limited\<rparr>"
        and renv = "calm_env\<lparr>settings_read_fails := True\<rparr>" and d = reminder_db
        and outcome = "Inl rate_limited"]
    by (simp add: req thrown status handler_def split: prod.splits)
qed

theorem failures_caught_counterexample:
  "http_method text_request = ''POST''
   \<and> completion (working_platform\<lparr>completion := Inl redirected\<rparr>) = Inl redirected
   \<and> status (reply (handler (working_platform\<lparr>completion := Inl redirected\<rparr>) text_request))
       = 302
   \<and> show_fails failing_show_env
   \<and> rejected (sendDailyReminder failing_show_env reminder_db)
   \<and> logged (sendDailyReminder failing_show_env reminder_db) = []
   \<and> shown (sendDailyReminder failing_show_env reminder_db) = []"
proof -
  have req: "http_method text_request = ''POST''" "valid_text (body_text text_request)"
    by (simp_all add: text_request_def valid_text_def trim_def is_space_def)
  then have thrown: "handler_try (working_platform\<lparr>completion := Inl redirected\<rparr>) text_request
                  = (Inl redirected, [], [Complete])"
    by (simp add: handler_try_def working_platform_def text_request_def)
  have reply: "status (reply (handler (working_platform\<lparr>completion := Inl redirected\<rparr>) text_request))
                 = 302"
    by (simp add: handler_def thrown req)
      (simp add: handler_catch_def redirected_def truthy_status_def)
  have split: "js_split CHR '':'' ''09:00'' = [''09'', ''00'']"
    by simp
  have past: "isPastTime morning (Fin 9) (Fin 0)"
    by (simp add: isPastTime_def morning_def js_gt_def js_eq_def js_ge_def rat_of_def
        is_inf_def)
  have run: "sendDailyReminder failing_show_env reminder_db =
      \<lparr>db_after = reminder_db, shown = [], logged = [], rejected = True\<rparr>"
    using past
    by (simp add: sendDailyReminder_def shouldSendNotification_def failing_show_env_def
        calm_env_def reminder_db_def practiced_today_def split sample_Number_def element_def
        MESSAGES_def morning_def)
  show ?thesis
    by (simp add: reply run req) (simp add: failing_show_env_def calm_env_def)
qed

end
